theory Spec2Isabelle
  imports Main
begin

section \<open>Errors, outcomes and remote calls\<close>

text \<open>
  Identifiers of the remote resources. The Go SDK gives every resource type a struct
  of its path components and a constructor \<open>New...ID\<close>; the constructors are kept
  as the datatype constructors.
\<close>

datatype RegistryId = NewRegistryID
  (reg_SubscriptionId: string) (reg_ResourceGroupName: string) (reg_RegistryName: string)

datatype CacheRuleId = NewCacheRuleID
  (cr_SubscriptionId: string) (cr_ResourceGroupName: string) (cr_RegistryName: string)
  (cr_CacheRuleName: string)

datatype ManagedEnvironmentId = NewManagedEnvironmentID
  (me_SubscriptionId: string) (me_ResourceGroupName: string) (me_ManagedEnvironmentName: string)

datatype WorkspaceId = NewWorkspaceID
  (ws_SubscriptionId: string) (ws_ResourceGroupName: string) (ws_WorkspaceName: string)

datatype resource_id =
    RegistryIdOf RegistryId
  | CacheRuleIdOf CacheRuleId
  | ManagedEnvironmentIdOf ManagedEnvironmentId
  | WorkspaceIdOf WorkspaceId

text \<open>
  Go errors. \<open>ParseError\<close> is what an identifier parser returns, \<open>ResponseError\<close> what
  a remote client call returns (with the HTTP status it met), \<open>Errorf\<close> is
  \<open>fmt.Errorf\<close> with its format string and its arguments in order, and
  \<open>ImportAsExistsError\<close> is the import-required error of the host runtime.
\<close>

datatype error =
    ParseError string
  | ResponseError nat string
  | CodecError string
  | Errorf string "fmtarg list"
  | ImportAsExistsError string resource_id
and fmtarg =
    ArgId resource_id
  | ArgErr error
  | ArgStr string
  | ArgNat nat

text \<open>
  What a call of a Go function does: it returns its value, returns an error, or panics
  (a panic that nothing recovers ends the process).
\<close>

datatype 'a result = Ok 'a | Err error | Panic string

datatype http_response = Response (StatusCode: nat)

text \<open>
  \<open>response.WasNotFound\<close> of the helper library: the response is there and its status is
  404.
\<close>

definition WasNotFound :: "http_response option \<Rightarrow> bool" where
  "WasNotFound resp = (case resp of None \<Rightarrow> False | Some r \<Rightarrow> StatusCode r = 404)"

section \<open>Managed HSM URIs\<close>

text \<open>
  The environment: only the domain suffix of the managed HSM endpoint is read.
  \<open>env.ManagedHSM.DomainSuffix()\<close> returns the suffix and whether it is defined; here
  \<open>None\<close> is "not found".
\<close>

record Environment =
  ManagedHSM_DomainSuffix :: "string option"

definition DomainSuffixForManagedHSM :: "Environment \<Rightarrow> string" where
  "DomainSuffixForManagedHSM env =
     (case ManagedHSM_DomainSuffix env of
        None \<Rightarrow> ''managedhsm.azure.net''
      | Some ret \<Rightarrow> ret)"

text \<open>
  \<open>strings.Cut(s, ".")\<close>: the text before the first separator, the text after it, and
  whether the separator was found; without a separator the result is \<open>(s, "", false)\<close>.
\<close>

definition Cut :: "string \<Rightarrow> char \<Rightarrow> string \<times> string \<times> bool" where
  "Cut s sep =
     (if sep \<in> set s
      then (takeWhile (\<lambda>c. c \<noteq> sep) s, tl (dropWhile (\<lambda>c. c \<noteq> sep) s), True)
      else (s, [], False))"

text \<open>
  \<open>url.Parse\<close> and \<open>URL.Hostname\<close> belong to the Go standard library: they are
  parameters of the model (\<open>url_Parse\<close> returns the parsed URL or the error).
\<close>

definition IsManagedHSMURI ::
  "(string \<Rightarrow> error + 'url) \<Rightarrow> ('url \<Rightarrow> string) \<Rightarrow> Environment \<Rightarrow> string
     \<Rightarrow> bool \<times> error option \<times> string \<times> string" where
  "IsManagedHSMURI url_Parse Hostname env uri =
     (case url_Parse uri of
        Inl err \<Rightarrow> (False, Some (Errorf ''Error parsing %s as URI: %+v'' [ArgStr uri, ArgErr err]), [], [])
      | Inr url \<Rightarrow>
          (case Cut (Hostname url) CHR ''.'' of
             (instanceName, domainSuffix, found) \<Rightarrow>
               if \<not> found
               then (False,
                     Some (Errorf ''Key vault URI hostname does not have the right number of components: %s''
                             [ArgStr (Hostname url)]), [], [])
               else if domainSuffix = DomainSuffixForManagedHSM env
               then (True, None, instanceName, domainSuffix)
               else (False, None, [], [])))"

section \<open>The remote models\<close>

text \<open>
  The structs of the generated remote clients, with the fields this code reads or
  writes. A Go pointer field is an \<open>option\<close> (\<open>None\<close> is nil).
\<close>

record 'm GetOperationResponse =
  HttpResponse :: "http_response option"
  Model :: "'m option"

record CacheRuleProperties =
  SourceRepository :: "string option"
  TargetRepository :: "string option"

record CacheRule =
  cr_Name :: "string option"
  cr_Properties :: "CacheRuleProperties option"

record CacheRuleUpdateProperties =
  CredentialSetResourceId :: "string option"

record CacheRuleUpdateParameters =
  up_Properties :: "CacheRuleUpdateProperties option"

record LogAnalyticsConfiguration =
  CustomerId :: "string option"
  SharedKey :: "string option"

record AppLogsConfiguration =
  Destination :: "string option"
  logs_LogAnalyticsConfiguration :: "LogAnalyticsConfiguration option"

record VnetConfiguration =
  vnet_InfrastructureSubnetId :: "string option"
  vnet_Internal :: "bool option"
  vnet_DockerBridgeCidr :: "string option"
  vnet_PlatformReservedCidr :: "string option"
  vnet_PlatformReservedDnsIP :: "string option"

record WorkloadProfile =
  wp_Name :: string
  wp_WorkloadProfileType :: string
  wp_MaximumCount :: "int option"
  wp_MinimumCount :: "int option"

record ManagedEnvironmentProperties =
  props_AppLogsConfiguration :: "AppLogsConfiguration option"
  props_DaprAIConnectionString :: "string option"
  props_DefaultDomain :: "string option"
  props_StaticIP :: "string option"
  props_VnetConfiguration :: "VnetConfiguration option"
  props_WorkloadProfiles :: "WorkloadProfile list option"
  props_ZoneRedundant :: "bool option"

record ManagedEnvironment =
  me_Location :: string
  me_Name :: "string option"
  me_Properties :: "ManagedEnvironmentProperties option"
  me_Tags :: "(string \<rightharpoonup> string) option"

record WorkspaceProperties =
  ws_CustomerId :: "string option"

record Workspace =
  ws_Properties :: "WorkspaceProperties option"

record SharedKeys =
  PrimarySharedKey :: "string option"

section \<open>The configuration models\<close>

record WorkloadProfileModel =
  wpm_Name :: string
  wpm_WorkloadProfileType :: string
  wpm_MaximumCount :: int
  wpm_MinimumCount :: int

record ContainerAppEnvironmentModel =
  Name :: string
  ResourceGroup :: string
  Location :: string
  DaprApplicationInsightsConnectionString :: string
  LogDestination :: string
  LogAnalyticsWorkspaceId :: string
  InfrastructureSubnetId :: string
  InternalLoadBalancerEnabled :: bool
  ZoneRedundant :: bool
  Tags :: "string \<rightharpoonup> string"
  WorkloadProfiles :: "WorkloadProfileModel list"
  DefaultDomain :: string
  DockerBridgeCidr :: string
  PlatformReservedCidr :: string
  PlatformReservedDnsIP :: string
  StaticIP :: string

text \<open>The zero value of the model (\<open>var state ContainerAppEnvironmentModel\<close>).\<close>

definition zero_ContainerAppEnvironmentModel :: ContainerAppEnvironmentModel where
  "zero_ContainerAppEnvironmentModel =
     \<lparr>Name = [], ResourceGroup = [], Location = [],
      DaprApplicationInsightsConnectionString = [], LogDestination = [],
      LogAnalyticsWorkspaceId = [], InfrastructureSubnetId = [],
      InternalLoadBalancerEnabled = False, ZoneRedundant = False, Tags = Map.empty,
      WorkloadProfiles = [], DefaultDomain = [], DockerBridgeCidr = [],
      PlatformReservedCidr = [], PlatformReservedDnsIP = [], StaticIP = []\<rparr>"

definition LogDestinationMissing :: string where "LogDestinationMissing = []"
definition LogDestinationNone :: string where "LogDestinationNone = ''none''"
definition LogDestinationLogAnalytics :: string where "LogDestinationLogAnalytics = ''log-analytics''"
definition LogDestinationAzureMonitor :: string where "LogDestinationAzureMonitor = ''azure-monitor''"

text \<open>\<open>pointer.From\<close>: the value pointed to, or the zero value for nil.\<close>

definition From_string :: "string option \<Rightarrow> string" where
  "From_string p = (case p of None \<Rightarrow> [] | Some v \<Rightarrow> v)"

definition From_bool :: "bool option \<Rightarrow> bool" where
  "From_bool p = (case p of None \<Rightarrow> False | Some v \<Rightarrow> v)"

section \<open>Clients, resource data and the metadata bundle\<close>

text \<open>
  The remote clients: what each call answers. A \<open>Get\<close> answers with its response and
  its error; the calls that poll answer with their error only.
\<close>

record Client =
  Account_SubscriptionId :: string
  Registries_Get :: "RegistryId \<Rightarrow> unit GetOperationResponse \<times> error option"
  CacheRules_Get :: "CacheRuleId \<Rightarrow> CacheRule GetOperationResponse \<times> error option"
  CacheRules_CreateThenPoll :: "CacheRuleId \<Rightarrow> CacheRule \<Rightarrow> error option"
  CacheRules_UpdateThenPoll :: "CacheRuleId \<Rightarrow> CacheRuleUpdateParameters \<Rightarrow> error option"
  CacheRules_DeleteThenPoll :: "CacheRuleId \<Rightarrow> error option"
  ManagedEnvironments_Get ::
    "ManagedEnvironmentId \<Rightarrow> ManagedEnvironment GetOperationResponse \<times> error option"
  ManagedEnvironments_CreateOrUpdateThenPoll ::
    "ManagedEnvironmentId \<Rightarrow> ManagedEnvironment \<Rightarrow> error option"
  ManagedEnvironments_DeleteThenPoll :: "ManagedEnvironmentId \<Rightarrow> error option"
  Workspaces_Get :: "WorkspaceId \<Rightarrow> Workspace GetOperationResponse \<times> error option"
  Workspaces_SharedKeysGetSharedKeys ::
    "WorkspaceId \<Rightarrow> SharedKeys GetOperationResponse \<times> error option"

text \<open>The calls a lifecycle function issues, logged in order.\<close>

datatype call =
    Call_Registries_Get RegistryId
  | Call_CacheRules_Get CacheRuleId
  | Call_CacheRules_CreateThenPoll CacheRuleId CacheRule
  | Call_CacheRules_UpdateThenPoll CacheRuleId CacheRuleUpdateParameters
  | Call_CacheRules_DeleteThenPoll CacheRuleId
  | Call_ManagedEnvironments_Get ManagedEnvironmentId
  | Call_ManagedEnvironments_CreateOrUpdateThenPoll ManagedEnvironmentId ManagedEnvironment
  | Call_ManagedEnvironments_DeleteThenPoll ManagedEnvironmentId
  | Call_Workspaces_Get WorkspaceId
  | Call_Workspaces_SharedKeysGetSharedKeys WorkspaceId

text \<open>
  \<open>ResourceData\<close>: the identifier in state, the values \<open>Get\<close> reads (the code asserts
  them to be strings), \<open>HasChange\<close>, and the values written with \<open>Set\<close>.
\<close>

datatype tfvalue = VString string | VStringPtr "string option" | VRegistryId RegistryId

record ResourceData =
  rd_Id :: string
  rd_Get :: "string \<Rightarrow> string"
  rd_HasChange :: "string \<Rightarrow> bool"
  rd_Set :: "string \<rightharpoonup> tfvalue"

text \<open>
  The metadata bundle of a lifecycle call: the clients, the resource data, what decoding
  the configuration gives, what encoding a state answers, the state encoded so far and
  the calls issued so far.
\<close>

record metadata =
  Client :: Client
  ResourceData :: ResourceData
  Decode :: "error + ContainerAppEnvironmentModel"
  Encode :: "ContainerAppEnvironmentModel \<Rightarrow> error option"
  encoded :: "ContainerAppEnvironmentModel option"
  calls :: "call list"

text \<open>
  The library functions this code imports and that are not part of it: the identifier
  codecs of the remote SDK, the location and tag helpers, the workload profile helpers
  and the identifier validator of the registry. They are parameters of the model.
\<close>

record Lib =
  ParseRegistryID :: "string \<Rightarrow> error + RegistryId"
  ParseCacheRuleID :: "string \<Rightarrow> error + CacheRuleId"
  ParseManagedEnvironmentID :: "string \<Rightarrow> error + ManagedEnvironmentId"
  ParseWorkspaceID :: "string \<Rightarrow> error + WorkspaceId"
  ID :: "resource_id \<Rightarrow> string"
  location_Normalize :: "string \<Rightarrow> string"
  tags_Expand :: "(string \<rightharpoonup> string) \<Rightarrow> (string \<rightharpoonup> string) option"
  tags_Flatten :: "(string \<rightharpoonup> string) option \<Rightarrow> (string \<rightharpoonup> string)"
  ExpandWorkloadProfiles :: "WorkloadProfileModel list \<Rightarrow> WorkloadProfile list option"
  FlattenWorkloadProfiles :: "WorkloadProfile list option \<Rightarrow> WorkloadProfileModel list"
  ValidateRegistryID :: "string \<Rightarrow> string \<Rightarrow> string list \<times> error list"

definition record_call :: "call \<Rightarrow> metadata \<Rightarrow> metadata" where
  "record_call c metadata = metadata\<lparr>calls := calls metadata @ [c]\<rparr>"

text \<open>
  Modelled from the spec: \<open>metadata.SetID\<close> of the provider's \<open>internal/sdk\<close> package
  is not among the source files. It persists the identifier as the new state handle.
\<close>

definition SetID :: "Lib \<Rightarrow> resource_id \<Rightarrow> metadata \<Rightarrow> metadata" where
  "SetID lib id' metadata =
     metadata\<lparr>ResourceData := (ResourceData metadata)\<lparr>rd_Id := ID lib id'\<rparr>\<rparr>"

text \<open>
  Modelled from the spec: \<open>metadata.MarkAsGone\<close> of the provider's \<open>internal/sdk\<close>
  package is not among the source files. It signals the host runtime to drop the
  resource from state (the identifier in state becomes empty) and is not an error.
\<close>

definition MarkAsGone :: "resource_id \<Rightarrow> metadata \<Rightarrow> unit result \<times> metadata" where
  "MarkAsGone id' metadata =
     (Ok (), metadata\<lparr>ResourceData := (ResourceData metadata)\<lparr>rd_Id := []\<rparr>\<rparr>)"

text \<open>
  Modelled from the spec: \<open>metadata.ResourceRequiresImport\<close> of the provider's
  \<open>internal/sdk\<close> package is not among the source files. It gives the import-required
  error for the resource type and the identifier.
\<close>

definition ResourceRequiresImport :: "string \<Rightarrow> resource_id \<Rightarrow> error" where
  "ResourceRequiresImport resourceType id' = ImportAsExistsError resourceType id'"

text \<open>
  \<open>sdk.ResourceFunc\<close>: a timeout (in minutes) and the function the host runtime calls
  with the metadata bundle. The function returns nil (\<open>Ok ()\<close>), returns an error or
  panics, and leaves the metadata bundle as it changed it. The context only carries
  the timeout and is left out.
\<close>

record ResourceFunc =
  Timeout :: nat
  Func :: "metadata \<Rightarrow> unit result \<times> metadata"

definition nil_dereference :: string where
  "nil_dereference = ''invalid memory address or nil pointer dereference''"

section \<open>The credential set resource\<close>

definition ContainerRegistryCredentialSet_Create :: ResourceFunc where
  "ContainerRegistryCredentialSet_Create =
     \<lparr>Timeout = 5, Func = (\<lambda>metadata. (Panic ''unimplemented'', metadata))\<rparr>"

definition ContainerRegistryCredentialSet_Read :: ResourceFunc where
  "ContainerRegistryCredentialSet_Read =
     \<lparr>Timeout = 5, Func = (\<lambda>metadata. (Panic ''unimplemented'', metadata))\<rparr>"

definition ContainerRegistryCredentialSet_Update :: ResourceFunc where
  "ContainerRegistryCredentialSet_Update =
     \<lparr>Timeout = 5, Func = (\<lambda>metadata. (Panic ''unimplemented'', metadata))\<rparr>"

definition ContainerRegistryCredentialSet_Delete :: ResourceFunc where
  "ContainerRegistryCredentialSet_Delete =
     \<lparr>Timeout = 5, Func = (\<lambda>metadata. (Panic ''unimplemented'', metadata))\<rparr>"

section \<open>The cache rule resource\<close>

text \<open>
  A schema validation function takes the value and the name of its field and returns
  warnings and errors. \<open>validation.StringLenBetween\<close> belongs to the plugin SDK: the
  value passes when its length (in bytes) is within the two bounds, both included, and
  fails with one error otherwise.
\<close>

type_synonym SchemaValidateFunc = "string \<Rightarrow> string \<Rightarrow> string list \<times> error list"

definition StringLenBetween :: "nat \<Rightarrow> nat \<Rightarrow> SchemaValidateFunc" where
  "StringLenBetween min' max' v k =
     ([],
      if length v < min' \<or> length v > max'
      then [Errorf ''expected length of %s to be in the range (%d - %d), got %s''
              [ArgStr k, ArgNat min', ArgNat max', ArgStr v]]
      else [])"

datatype ValueType = TypeString | TypeBool | TypeList

record Schema =
  Type :: ValueType
  Required :: bool
  Optional :: bool
  ForceNew :: bool
  Description :: string
  ValidateFunc :: "SchemaValidateFunc option"

definition ContainerRegistryCacheRule_Arguments :: "Lib \<Rightarrow> (string \<times> Schema) list" where
  "ContainerRegistryCacheRule_Arguments lib =
     [(''name'',
       \<lparr>Type = TypeString, Required = True, Optional = False, ForceNew = True,
        Description = ''The name of the cache rule.'',
        ValidateFunc = Some (StringLenBetween 5 40)\<rparr>),
      (''credential_set_id'',
       \<lparr>Type = TypeString, Required = False, Optional = True, ForceNew = False,
        Description = ''Credential set ID'',
        ValidateFunc = None\<rparr>),
      (''container_registry_id'',
       \<lparr>Type = TypeString, Required = True, Optional = False, ForceNew = True,
        Description = ''Resource ID of the parent container registry.'',
        ValidateFunc = Some (ValidateRegistryID lib)\<rparr>),
      (''source_repo'',
       \<lparr>Type = TypeString, Required = True, Optional = False, ForceNew = True,
        Description = ''The full source repository path such as 'docker.io/library/ubuntu'.'',
        ValidateFunc = None\<rparr>),
      (''target_repo'',
       \<lparr>Type = TypeString, Required = True, Optional = False, ForceNew = True,
        Description = ''The target repository namespace such as 'ubuntu'.'',
        ValidateFunc = None\<rparr>)]"

text \<open>
  The validation the schema applies to a field: the errors of its \<open>ValidateFunc\<close>, none
  when the field has no validation function (or does not exist).
\<close>

definition validate_field :: "(string \<times> Schema) list \<Rightarrow> string \<Rightarrow> string \<Rightarrow> error list" where
  "validate_field arguments k v =
     (case map_of arguments k of
        None \<Rightarrow> []
      | Some sch \<Rightarrow> (case ValidateFunc sch of None \<Rightarrow> [] | Some f \<Rightarrow> snd (f v k)))"

text \<open>
  \<open>ResourceData.Set\<close> of the plugin SDK: the value is written under its key when the
  schema has the key and the value converts to the type of the field; otherwise Set
  returns an error and writes nothing. A string and a pointer to a string convert to a
  string field; a struct does not.
\<close>

definition converts_to :: "tfvalue \<Rightarrow> ValueType \<Rightarrow> bool" where
  "converts_to v t =
     (case v of
        VString s \<Rightarrow> t = TypeString
      | VStringPtr p \<Rightarrow> t = TypeString
      | VRegistryId r \<Rightarrow> False)"

definition ResourceData_Set ::
  "(string \<times> Schema) list \<Rightarrow> string \<Rightarrow> tfvalue \<Rightarrow> metadata \<Rightarrow> error option \<times> metadata" where
  "ResourceData_Set schema k v metadata =
     (case map_of schema k of
        None \<Rightarrow> (Some (Errorf ''Invalid address to set: %s'' [ArgStr k]), metadata)
      | Some sch \<Rightarrow>
          if converts_to v (Type sch)
          then (None,
                metadata\<lparr>ResourceData := (ResourceData metadata)
                            \<lparr>rd_Set := (rd_Set (ResourceData metadata))(k \<mapsto> v)\<rparr>\<rparr>)
          else (Some (Errorf ''%s: expected type string, got unconvertible type'' [ArgStr k]),
                metadata))"

text \<open>
  The table of the name validation test: each value with the number of errors the test
  expects of the name validator.
\<close>

definition name_validation_cases :: "(string \<times> nat) list" where
  "name_validation_cases =
     [([], 2),
      (''four'', 1),
      (''5five'', 0),
      (''hello-world'', 0),
      (''hello-world-foo-bar-12345'', 0),
      (''hello_world'', 1),
      (''helloWorld'', 0),
      (''helloworld12'', 0),
      (''hello@world'', 1),
      (''qfvbdsbvipqdbwsbddbdcwqffewsqwcdw21ddwqwd3324120'', 0),
      (''qfvbdsbvipqdbwsbddbdcwqffewsqwcdw21ddwqwd33241202'', 0),
      (''qfvbdsbvipqdbwsbddbdcwqfjjfewsqwcdw21ddwqwd3324120'', 1)]"

definition ContainerRegistryCacheRule_ResourceType :: string where
  "ContainerRegistryCacheRule_ResourceType = ''azurerm_container_registry_cache_rule''"

definition ContainerRegistryCacheRule_Create :: "Lib \<Rightarrow> ResourceFunc" where
  "ContainerRegistryCacheRule_Create lib =
     \<lparr>Timeout = 30,
      Func = (\<lambda>metadata.
        let client = Client metadata;
            subscriptionId = Account_SubscriptionId client
        in
        case ParseRegistryID lib (rd_Get (ResourceData metadata) ''container_registry_id'') of
          Inl err \<Rightarrow> (Err err, metadata)
        | Inr registryId \<Rightarrow>
            let md1 = record_call (Call_Registries_Get registryId) metadata in
            (case snd (Registries_Get client registryId) of
               Some err \<Rightarrow>
                 (Err (Errorf ''getting registry %s: %+v''
                         [ArgId (RegistryIdOf registryId), ArgErr err]), md1)
             | None \<Rightarrow>
                 let id' = NewCacheRuleID subscriptionId
                             (reg_ResourceGroupName registryId)
                             (reg_RegistryName registryId)
                             (rd_Get (ResourceData metadata) ''name'');
                     md2 = record_call (Call_CacheRules_Get id') md1;
                     existing = fst (CacheRules_Get client id');
                     create =
                       (if \<not> WasNotFound (HttpResponse existing)
                        then (Err (ResourceRequiresImport ContainerRegistryCacheRule_ResourceType
                                     (CacheRuleIdOf id')), md2)
                        else
                          let targetRepo = rd_Get (ResourceData metadata) ''target_repo'';
                              sourceRepo = rd_Get (ResourceData metadata) ''source_repo'';
                              parameters =
                                \<lparr>cr_Name = Some (cr_CacheRuleName id'),
                                 cr_Properties = Some
                                   \<lparr>SourceRepository = Some sourceRepo,
                                    TargetRepository = Some targetRepo\<rparr>\<rparr>;
                              md3 = record_call (Call_CacheRules_CreateThenPoll id' parameters) md2
                          in
                          (case CacheRules_CreateThenPoll client id' parameters of
                             Some err \<Rightarrow>
                               (Err (Errorf ''creating Container Registry Cache Rule %s: %+v''
                                       [ArgId (CacheRuleIdOf id'), ArgErr err]), md3)
                           | None \<Rightarrow> (Ok (), SetID lib (CacheRuleIdOf id') md3)))
                 in
                 (case snd (CacheRules_Get client id') of
                    Some err \<Rightarrow>
                      if \<not> WasNotFound (HttpResponse existing)
                      then (Err (Errorf ''checking for presence of existing %s: %s''
                                   [ArgId (CacheRuleIdOf id'), ArgErr err]), md2)
                      else create
                  | None \<Rightarrow> create)))\<rparr>"

definition ContainerRegistryCacheRule_Read :: "Lib \<Rightarrow> ResourceFunc" where
  "ContainerRegistryCacheRule_Read lib =
     \<lparr>Timeout = 5,
      Func = (\<lambda>metadata.
        case ParseCacheRuleID lib (rd_Id (ResourceData metadata)) of
          Inl err \<Rightarrow> (Err err, metadata)
        | Inr id' \<Rightarrow>
            let md1 = record_call (Call_CacheRules_Get id') metadata;
                resp = fst (CacheRules_Get (Client metadata) id')
            in
            (case snd (CacheRules_Get (Client metadata) id') of
               Some err \<Rightarrow>
                 if WasNotFound (HttpResponse resp)
                 then MarkAsGone (CacheRuleIdOf id') md1
                 else (Err (Errorf ''retrieving Container Registry Cache Rule %s: %+v''
                              [ArgId (CacheRuleIdOf id'), ArgErr err]), md1)
             | None \<Rightarrow>
                 let schema = ContainerRegistryCacheRule_Arguments lib;
                     md2 = snd (ResourceData_Set schema ''name''
                                  (VString (cr_CacheRuleName id')) md1);
                     registryId = NewRegistryID (cr_SubscriptionId id') (cr_SubscriptionId id')
                                    (cr_RegistryName id');
                     md3 = snd (ResourceData_Set schema ''container_registry_id''
                                  (VRegistryId registryId) md2);
                     md4 =
                       (case Model resp of
                          None \<Rightarrow> md3
                        | Some model \<Rightarrow>
                            (case cr_Properties model of
                               None \<Rightarrow> md3
                             | Some properties \<Rightarrow>
                                 snd (ResourceData_Set schema ''target_repo''
                                        (VStringPtr (TargetRepository properties))
                                        (snd (ResourceData_Set schema ''source_repo''
                                                (VStringPtr (SourceRepository properties)) md3)))))
                 in (Ok (), md4)))\<rparr>"

definition ContainerRegistryCacheRule_Update :: "Lib \<Rightarrow> ResourceFunc" where
  "ContainerRegistryCacheRule_Update lib =
     \<lparr>Timeout = 30,
      Func = (\<lambda>metadata.
        case ParseCacheRuleID lib (rd_Id (ResourceData metadata)) of
          Inl err \<Rightarrow> (Err err, metadata)
        | Inr id' \<Rightarrow>
            let parameters =
                  \<lparr>up_Properties = Some \<lparr>CredentialSetResourceId = None\<rparr>\<rparr>;
                md1 = record_call (Call_CacheRules_UpdateThenPoll id' parameters) metadata
            in
            (case CacheRules_UpdateThenPoll (Client metadata) id' parameters of
               Some err \<Rightarrow>
                 (Err (Errorf ''updating %s: %+v'' [ArgId (CacheRuleIdOf id'), ArgErr err]), md1)
             | None \<Rightarrow> (Ok (), SetID lib (CacheRuleIdOf id') md1)))\<rparr>"

definition ContainerRegistryCacheRule_Delete :: "Lib \<Rightarrow> ResourceFunc" where
  "ContainerRegistryCacheRule_Delete lib =
     \<lparr>Timeout = 30,
      Func = (\<lambda>metadata.
        case ParseCacheRuleID lib (rd_Id (ResourceData metadata)) of
          Inl err \<Rightarrow> (Err err, metadata)
        | Inr id' \<Rightarrow>
            let md1 = record_call (Call_CacheRules_DeleteThenPoll id') metadata in
            (case CacheRules_DeleteThenPoll (Client metadata) id' of
               Some err \<Rightarrow>
                 (Err (Errorf ''deleting Container Registry Cache Rule %s: %+v''
                         [ArgId (CacheRuleIdOf id'), ArgErr err]), md1)
             | None \<Rightarrow> (Ok (), md1)))\<rparr>"

section \<open>The container app environment resource\<close>

definition ContainerAppEnvironmentResource_ResourceType :: string where
  "ContainerAppEnvironmentResource_ResourceType = ''azurerm_container_app_environment''"

definition constructAppLogsConfigurationFromModel ::
  "Lib \<Rightarrow> ManagedEnvironmentId \<Rightarrow> ContainerAppEnvironmentModel \<Rightarrow> metadata
     \<Rightarrow> AppLogsConfiguration option result \<times> metadata" where
  "constructAppLogsConfigurationFromModel lib id' model metadata =
     (if LogDestination model = LogDestinationNone then (Ok None, metadata)
      else if LogDestination model = LogDestinationAzureMonitor then
        (Ok (Some \<lparr>Destination = Some LogDestinationAzureMonitor,
                   logs_LogAnalyticsConfiguration = None\<rparr>), metadata)
      else if LogDestination model = LogDestinationLogAnalytics then
        (case ParseWorkspaceID lib (LogAnalyticsWorkspaceId model) of
           Inl err \<Rightarrow> (Err err, metadata)
         | Inr logAnalyticsId \<Rightarrow>
             let md1 = record_call (Call_Workspaces_Get logAnalyticsId) metadata;
                 workspace = fst (Workspaces_Get (Client metadata) logAnalyticsId);
                 no_customer_id =
                   (Err (Errorf ''reading customer ID from %s'' [ArgId (WorkspaceIdOf logAnalyticsId)]),
                    md1)
             in
             (case snd (Workspaces_Get (Client metadata) logAnalyticsId) of
                Some err \<Rightarrow>
                  (Err (Errorf ''retrieving %s for %s: %+v''
                          [ArgId (WorkspaceIdOf logAnalyticsId),
                           ArgId (ManagedEnvironmentIdOf id'), ArgErr err]), md1)
              | None \<Rightarrow>
                  (case Model workspace of
                     None \<Rightarrow> no_customer_id
                   | Some workspace_model \<Rightarrow>
                       (case ws_Properties workspace_model of
                          None \<Rightarrow> no_customer_id
                        | Some workspace_properties \<Rightarrow>
                            (case ws_CustomerId workspace_properties of
                               None \<Rightarrow>
                                 (Err (Errorf ''reading customer ID from %s, `customer_id` is nil''
                                         [ArgId (WorkspaceIdOf logAnalyticsId)]), md1)
                             | Some customerId \<Rightarrow>
                                 let md2 = record_call
                                             (Call_Workspaces_SharedKeysGetSharedKeys logAnalyticsId) md1;
                                     keys = fst (Workspaces_SharedKeysGetSharedKeys (Client metadata)
                                                   logAnalyticsId)
                                 in
                                 (case snd (Workspaces_SharedKeysGetSharedKeys (Client metadata)
                                              logAnalyticsId) of
                                    Some err \<Rightarrow>
                                      (Err (Errorf ''retrieving access keys to %s for %s: %+v''
                                              [ArgId (WorkspaceIdOf logAnalyticsId),
                                               ArgId (ManagedEnvironmentIdOf id'), ArgErr err]), md2)
                                  | None \<Rightarrow>
                                      (case Model keys of
                                         None \<Rightarrow> (Panic nil_dereference, md2)
                                       | Some keys_model \<Rightarrow>
                                           (case PrimarySharedKey keys_model of
                                              None \<Rightarrow>
                                                (Err (Errorf ''reading shared key for %s in %s''
                                                        [ArgId (WorkspaceIdOf logAnalyticsId),
                                                         ArgId (ManagedEnvironmentIdOf id')]), md2)
                                            | Some primarySharedKey \<Rightarrow>
                                                (Ok (Some
                                                   \<lparr>Destination = Some LogDestinationLogAnalytics,
                                                    logs_LogAnalyticsConfiguration = Some
                                                      \<lparr>CustomerId = Some customerId,
                                                       SharedKey = Some primarySharedKey\<rparr>\<rparr>),
                                                 md2)))))))))
      else (Err (Errorf ''invalid log destination %s'' [ArgStr (LogDestination model)]), metadata))"

definition ContainerAppEnvironmentResource_Create :: "Lib \<Rightarrow> ResourceFunc" where
  "ContainerAppEnvironmentResource_Create lib =
     \<lparr>Timeout = 30,
      Func = (\<lambda>metadata.
        let client = Client metadata;
            subscriptionId = Account_SubscriptionId client
        in
        case Decode metadata of
          Inl err \<Rightarrow> (Err err, metadata)
        | Inr containerAppEnvironment \<Rightarrow>
            let id' = NewManagedEnvironmentID subscriptionId
                        (ResourceGroup containerAppEnvironment) (Name containerAppEnvironment);
                md1 = record_call (Call_ManagedEnvironments_Get id') metadata;
                existing = fst (ManagedEnvironments_Get client id');
                create =
                  (if \<not> WasNotFound (HttpResponse existing)
                   then (Err (ResourceRequiresImport ContainerAppEnvironmentResource_ResourceType
                                (ManagedEnvironmentIdOf id')), md1)
                   else
                     let vnet0 = \<lparr>vnet_InfrastructureSubnetId = None, vnet_Internal = None,
                                  vnet_DockerBridgeCidr = None, vnet_PlatformReservedCidr = None,
                                  vnet_PlatformReservedDnsIP = None\<rparr>;
                         props0 = \<lparr>props_AppLogsConfiguration = None,
                                   props_DaprAIConnectionString = None,
                                   props_DefaultDomain = None,
                                   props_StaticIP = None,
                                   props_VnetConfiguration = Some vnet0,
                                   props_WorkloadProfiles = None,
                                   props_ZoneRedundant = Some (ZoneRedundant containerAppEnvironment)\<rparr>;
                         props1 =
                           (if DaprApplicationInsightsConnectionString containerAppEnvironment \<noteq> []
                            then props0\<lparr>props_DaprAIConnectionString :=
                                   Some (DaprApplicationInsightsConnectionString containerAppEnvironment)\<rparr>
                            else props0)
                     in
                     (case constructAppLogsConfigurationFromModel lib id' containerAppEnvironment md1 of
                        (Err err, md2) \<Rightarrow> (Err err, md2)
                      | (Panic p, md2) \<Rightarrow> (Panic p, md2)
                      | (Ok appLogsConfiguration, md2) \<Rightarrow>
                          let props2 = props1\<lparr>props_AppLogsConfiguration := appLogsConfiguration\<rparr>;
                              props3 =
                                (if InfrastructureSubnetId containerAppEnvironment \<noteq> []
                                 then props2\<lparr>props_VnetConfiguration := Some
                                        (vnet0\<lparr>vnet_InfrastructureSubnetId :=
                                                  Some (InfrastructureSubnetId containerAppEnvironment),
                                               vnet_Internal :=
                                                  Some (InternalLoadBalancerEnabled containerAppEnvironment)\<rparr>)\<rparr>
                                 else props2);
                              props4 = props3\<lparr>props_WorkloadProfiles :=
                                         ExpandWorkloadProfiles lib (WorkloadProfiles containerAppEnvironment)\<rparr>;
                              managedEnvironment =
                                \<lparr>me_Location = Location containerAppEnvironment,
                                 me_Name = Some (Name containerAppEnvironment),
                                 me_Properties = Some props4,
                                 me_Tags = tags_Expand lib (Tags containerAppEnvironment)\<rparr>;
                              md3 = record_call
                                      (Call_ManagedEnvironments_CreateOrUpdateThenPoll id' managedEnvironment) md2
                          in
                          (case ManagedEnvironments_CreateOrUpdateThenPoll client id' managedEnvironment of
                             Some err \<Rightarrow>
                               (Err (Errorf ''creating %s: %+v''
                                       [ArgId (ManagedEnvironmentIdOf id'), ArgErr err]), md3)
                           | None \<Rightarrow> (Ok (), SetID lib (ManagedEnvironmentIdOf id') md3))))
            in
            (case snd (ManagedEnvironments_Get client id') of
               Some err \<Rightarrow>
                 if \<not> WasNotFound (HttpResponse existing)
                 then (Err (Errorf ''checking for presence of existing %s: %+v''
                              [ArgId (ManagedEnvironmentIdOf id'), ArgErr err]), md1)
                 else create
             | None \<Rightarrow> create))\<rparr>"

definition ContainerAppEnvironmentResource_Read :: "Lib \<Rightarrow> ResourceFunc" where
  "ContainerAppEnvironmentResource_Read lib =
     \<lparr>Timeout = 5,
      Func = (\<lambda>metadata.
        case ParseManagedEnvironmentID lib (rd_Id (ResourceData metadata)) of
          Inl err \<Rightarrow> (Err err, metadata)
        | Inr id' \<Rightarrow>
            let md1 = record_call (Call_ManagedEnvironments_Get id') metadata;
                existing = fst (ManagedEnvironments_Get (Client metadata) id')
            in
            (case snd (ManagedEnvironments_Get (Client metadata) id') of
               Some err \<Rightarrow>
                 if WasNotFound (HttpResponse existing)
                 then MarkAsGone (ManagedEnvironmentIdOf id') md1
                 else (Err (Errorf ''reading %s: %+v''
                              [ArgId (ManagedEnvironmentIdOf id'), ArgErr err]), md1)
             | None \<Rightarrow>
                 let state0 = zero_ContainerAppEnvironmentModel;
                     state1 =
                       (case Model existing of
                          None \<Rightarrow> state0
                        | Some model \<Rightarrow>
                            let s0 = state0
                                  \<lparr>Name := me_ManagedEnvironmentName id',
                                   ResourceGroup := me_ResourceGroupName id',
                                   Location := location_Normalize lib (me_Location model),
                                   Tags := tags_Flatten lib (me_Tags model)\<rparr>
                            in
                            (case me_Properties model of
                               None \<Rightarrow> s0
                             | Some props \<Rightarrow>
                                 let s1 =
                                       (case props_VnetConfiguration props of
                                          None \<Rightarrow> s0
                                        | Some vnet \<Rightarrow> s0
                                            \<lparr>InfrastructureSubnetId :=
                                               From_string (vnet_InfrastructureSubnetId vnet),
                                             InternalLoadBalancerEnabled := From_bool (vnet_Internal vnet),
                                             DockerBridgeCidr := From_string (vnet_DockerBridgeCidr vnet),
                                             PlatformReservedCidr :=
                                               From_string (vnet_PlatformReservedCidr vnet),
                                             PlatformReservedDnsIP :=
                                               From_string (vnet_PlatformReservedDnsIP vnet)\<rparr>);
                                     s2 = s1
                                       \<lparr>ZoneRedundant := From_bool (props_ZoneRedundant props),
                                        StaticIP := From_string (props_StaticIP props),
                                        DefaultDomain := From_string (props_DefaultDomain props),
                                        WorkloadProfiles :=
                                          FlattenWorkloadProfiles lib (props_WorkloadProfiles props)\<rparr>;
                                     none = s2\<lparr>LogDestination := LogDestinationNone\<rparr>
                                 in
                                 (case props_AppLogsConfiguration props of
                                    None \<Rightarrow> none
                                  | Some appsLogs \<Rightarrow>
                                      (case Destination appsLogs of
                                         None \<Rightarrow> none
                                       | Some destination \<Rightarrow>
                                           let s3 = s2\<lparr>LogDestination := destination\<rparr> in
                                           if LogDestination s3 = LogDestinationLogAnalytics
                                           then
                                             let v = rd_Get (ResourceData metadata)
                                                       ''log_analytics_workspace_id''
                                             in if v \<noteq> [] then s3\<lparr>LogAnalyticsWorkspaceId := v\<rparr> else s3
                                           else s3))));
                     state2 =
                       (let v = rd_Get (ResourceData metadata)
                                  ''dapr_application_insights_connection_string''
                        in if v \<noteq> []
                           then state1\<lparr>DaprApplicationInsightsConnectionString := v\<rparr>
                           else state1)
                 in
                 (case Encode metadata state2 of
                    Some err \<Rightarrow> (Err (Errorf ''encoding: %+v'' [ArgErr err]), md1)
                  | None \<Rightarrow> (Ok (), md1\<lparr>encoded := Some state2\<rparr>))))\<rparr>"

definition ContainerAppEnvironmentResource_Delete :: "Lib \<Rightarrow> ResourceFunc" where
  "ContainerAppEnvironmentResource_Delete lib =
     \<lparr>Timeout = 30,
      Func = (\<lambda>metadata.
        case ParseManagedEnvironmentID lib (rd_Id (ResourceData metadata)) of
          Inl err \<Rightarrow> (Err err, metadata)
        | Inr id' \<Rightarrow>
            let md1 = record_call (Call_ManagedEnvironments_DeleteThenPoll id') metadata in
            (case ManagedEnvironments_DeleteThenPoll (Client metadata) id' of
               Some err \<Rightarrow>
                 (Err (Errorf ''deleting %s: %+v''
                         [ArgId (ManagedEnvironmentIdOf id'), ArgErr err]), md1)
             | None \<Rightarrow> (Ok (), md1)))\<rparr>"

definition ContainerAppEnvironmentResource_Update :: "Lib \<Rightarrow> ResourceFunc" where
  "ContainerAppEnvironmentResource_Update lib =
     \<lparr>Timeout = 30,
      Func = (\<lambda>metadata.
        case ParseManagedEnvironmentID lib (rd_Id (ResourceData metadata)) of
          Inl err \<Rightarrow> (Err err, metadata)
        | Inr id' \<Rightarrow>
            (case Decode metadata of
               Inl err \<Rightarrow> (Err (Errorf ''decoding: %+v'' [ArgErr err]), metadata)
             | Inr state0 \<Rightarrow>
                 let md1 = record_call (Call_ManagedEnvironments_Get id') metadata;
                     existing = fst (ManagedEnvironments_Get (Client metadata) id')
                 in
                 (case snd (ManagedEnvironments_Get (Client metadata) id') of
                    Some err \<Rightarrow>
                      (Err (Errorf ''reading %s: %+v''
                              [ArgId (ManagedEnvironmentIdOf id'), ArgErr err]), md1)
                  | None \<Rightarrow>
                      if rd_HasChange (ResourceData metadata) ''tags'' \<and> Model existing = None
                      then (Panic nil_dereference, md1)
                      else
                        let existing_Model =
                              (if rd_HasChange (ResourceData metadata) ''tags''
                               then map_option (\<lambda>m. m\<lparr>me_Tags := tags_Expand lib (Tags state0)\<rparr>)
                                      (Model existing)
                               else Model existing);
                            state =
                              (if LogDestination state0 = LogDestinationMissing
                               then (if LogAnalyticsWorkspaceId state0 \<noteq> []
                                     then state0\<lparr>LogDestination := LogDestinationLogAnalytics\<rparr>
                                     else state0\<lparr>LogDestination := LogDestinationNone\<rparr>)
                               else state0)
                        in
                        (case existing_Model of
                           None \<Rightarrow> (Panic nil_dereference, md1)
                         | Some model \<Rightarrow>
                             (case me_Properties model of
                                None \<Rightarrow> (Panic nil_dereference, md1)
                              | Some properties \<Rightarrow>
                                  let appLogDestination =
                                        (case props_AppLogsConfiguration properties of
                                           None \<Rightarrow> LogDestinationNone
                                         | Some appLogs \<Rightarrow>
                                             (case Destination appLogs of
                                                None \<Rightarrow> LogDestinationNone
                                              | Some destination \<Rightarrow> destination));
                                      update = (\<lambda>appLogsConfiguration md.
                                        let request = model\<lparr>me_Properties := Some
                                              (properties\<lparr>props_AppLogsConfiguration :=
                                                            appLogsConfiguration\<rparr>)\<rparr>;
                                            md' = record_call
                                                    (Call_ManagedEnvironments_CreateOrUpdateThenPoll
                                                       id' request) md
                                        in
                                        (case ManagedEnvironments_CreateOrUpdateThenPoll
                                                (Client metadata) id' request of
                                           Some err \<Rightarrow>
                                             (Err (Errorf ''updating %s: %+v''
                                                     [ArgId (ManagedEnvironmentIdOf id'), ArgErr err]),
                                              md')
                                         | None \<Rightarrow> (Ok (), md')))
                                  in
                                  if LogDestination state = appLogDestination then
                                    (if LogDestination state = LogDestinationLogAnalytics
                                     then update None md1
                                     else update None md1)
                                  else if LogDestination state = LogDestinationNone then
                                    update (Some \<lparr>Destination = None,
                                                  logs_LogAnalyticsConfiguration = None\<rparr>) md1
                                  else
                                    (case constructAppLogsConfigurationFromModel lib id' state md1 of
                                       (Err err, md2) \<Rightarrow> (Err err, md2)
                                     | (Panic p, md2) \<Rightarrow> (Panic p, md2)
                                     | (Ok appLogsFromState, md2) \<Rightarrow>
                                         update appLogsFromState md2))))))\<rparr>"

section \<open>The log destination an update compares\<close>

text \<open>
  The two destinations that Update compares, named: the destination the configuration
  asks for (a missing one stands for "log-analytics" when a workspace is configured and
  for "none" otherwise), and the destination of the remote representation ("none" when
  it has no app logs configuration or no destination).
\<close>

definition desired_log_destination :: "ContainerAppEnvironmentModel \<Rightarrow> string" where
  "desired_log_destination state =
     (if LogDestination state = LogDestinationMissing
      then (if LogAnalyticsWorkspaceId state \<noteq> [] then LogDestinationLogAnalytics
            else LogDestinationNone)
      else LogDestination state)"

definition remote_log_destination :: "ManagedEnvironmentProperties \<Rightarrow> string" where
  "remote_log_destination properties =
     (case props_AppLogsConfiguration properties of
        None \<Rightarrow> LogDestinationNone
      | Some appLogs \<Rightarrow>
          (case Destination appLogs of
             None \<Rightarrow> LogDestinationNone
           | Some destination \<Rightarrow> destination))"

text \<open>
  The request of an update, as the amended claim words it: the representation read from
  the remote side, with the configured tags when the tags changed, and with the given
  app logs configuration in its properties; every other field is as read.
\<close>

definition update_request ::
  "Lib \<Rightarrow> ResourceData \<Rightarrow> ContainerAppEnvironmentModel \<Rightarrow> ManagedEnvironment
     \<Rightarrow> ManagedEnvironmentProperties \<Rightarrow> AppLogsConfiguration option \<Rightarrow> ManagedEnvironment" where
  "update_request lib d state model properties appLogs =
     model\<lparr>me_Tags := (if rd_HasChange d ''tags'' then tags_Expand lib (Tags state)
                        else me_Tags model),
           me_Properties := Some (properties\<lparr>props_AppLogsConfiguration := appLogs\<rparr>)\<rparr>"

text \<open>Issuing the update call with a request: the result of Update and the call logged.\<close>

definition issue_update ::
  "ManagedEnvironmentId \<Rightarrow> ManagedEnvironment \<Rightarrow> metadata \<Rightarrow> unit result \<times> metadata" where
  "issue_update id' request metadata =
     ((case ManagedEnvironments_CreateOrUpdateThenPoll (Client metadata) id' request of
         None \<Rightarrow> Ok ()
       | Some err \<Rightarrow> Err (Errorf ''updating %s: %+v''
                            [ArgId (ManagedEnvironmentIdOf id'), ArgErr err])),
      metadata\<lparr>calls := calls metadata
                 @ [Call_ManagedEnvironments_CreateOrUpdateThenPoll id' request]\<rparr>)"

section \<open>Example inputs\<close>

text \<open>
  Concrete libraries, clients and metadata bundles, used to run the lifecycle
  functions. The example codec knows one identifier of each kind, under a short handle.
\<close>

definition example_registry_id :: RegistryId where
  "example_registry_id = NewRegistryID ''sub1'' ''group1'' ''registry1''"

definition example_cache_rule_id :: CacheRuleId where
  "example_cache_rule_id =
     NewCacheRuleID ''sub1'' ''group1'' ''registry1'' ''testacc-cr-cache-rule-123''"

definition example_environment_id :: ManagedEnvironmentId where
  "example_environment_id = NewManagedEnvironmentID ''sub1'' ''group1'' ''env1''"

definition example_workspace_id :: WorkspaceId where
  "example_workspace_id = NewWorkspaceID ''sub1'' ''group1'' ''workspace1''"

definition example_lib :: Lib where
  "example_lib =
     \<lparr>ParseRegistryID =
        (\<lambda>s. if s = ''registry:1'' then Inr example_registry_id else Inl (ParseError s)),
      ParseCacheRuleID =
        (\<lambda>s. if s = ''rule:1'' then Inr example_cache_rule_id else Inl (ParseError s)),
      ParseManagedEnvironmentID =
        (\<lambda>s. if s = ''env:1'' then Inr example_environment_id else Inl (ParseError s)),
      ParseWorkspaceID =
        (\<lambda>s. if s = ''workspace:1'' then Inr example_workspace_id else Inl (ParseError s)),
      ID = (\<lambda>r. case r of
                  RegistryIdOf x \<Rightarrow> ''registry:1''
                | CacheRuleIdOf x \<Rightarrow> ''rule:1''
                | ManagedEnvironmentIdOf x \<Rightarrow> ''env:1''
                | WorkspaceIdOf x \<Rightarrow> ''workspace:1''),
      location_Normalize = (\<lambda>s. s),
      tags_Expand = Some,
      tags_Flatten = (\<lambda>t. case t of None \<Rightarrow> Map.empty | Some m \<Rightarrow> m),
      ExpandWorkloadProfiles = (\<lambda>ps. None),
      FlattenWorkloadProfiles = (\<lambda>ps. []),
      ValidateRegistryID = (\<lambda>v k. ([], []))\<rparr>"

definition example_log_analytics :: AppLogsConfiguration where
  "example_log_analytics =
     \<lparr>Destination = Some ''log-analytics'',
      logs_LogAnalyticsConfiguration = Some \<lparr>CustomerId = Some ''customer1'', SharedKey = None\<rparr>\<rparr>"

definition example_environment :: ManagedEnvironment where
  "example_environment =
     \<lparr>me_Location = ''westeurope'',
      me_Name = Some ''env1'',
      me_Properties = Some
        \<lparr>props_AppLogsConfiguration = Some example_log_analytics,
         props_DaprAIConnectionString = None,
         props_DefaultDomain = Some ''env1.example.net'',
         props_StaticIP = Some ''10.0.0.4'',
         props_VnetConfiguration = None,
         props_WorkloadProfiles = None,
         props_ZoneRedundant = Some False\<rparr>,
      me_Tags = None\<rparr>"

definition example_cache_rule :: CacheRule where
  "example_cache_rule =
     \<lparr>cr_Name = Some ''testacc-cr-cache-rule-123'',
      cr_Properties = Some \<lparr>SourceRepository = Some ''docker.io/hello-world'',
                            TargetRepository = Some ''target''\<rparr>\<rparr>"

text \<open>A remote side where every resource exists and every call succeeds.\<close>

definition client_present :: Client where
  "client_present =
     \<lparr>Account_SubscriptionId = ''sub1'',
      Registries_Get = (\<lambda>i. (\<lparr>HttpResponse = Some (Response 200), Model = Some ()\<rparr>, None)),
      CacheRules_Get =
        (\<lambda>i. (\<lparr>HttpResponse = Some (Response 200), Model = Some example_cache_rule\<rparr>, None)),
      CacheRules_CreateThenPoll = (\<lambda>i p. None),
      CacheRules_UpdateThenPoll = (\<lambda>i p. None),
      CacheRules_DeleteThenPoll = (\<lambda>i. None),
      ManagedEnvironments_Get =
        (\<lambda>i. (\<lparr>HttpResponse = Some (Response 200), Model = Some example_environment\<rparr>, None)),
      ManagedEnvironments_CreateOrUpdateThenPoll = (\<lambda>i p. None),
      ManagedEnvironments_DeleteThenPoll = (\<lambda>i. None),
      Workspaces_Get =
        (\<lambda>i. (\<lparr>HttpResponse = Some (Response 200),
                 Model = Some \<lparr>ws_Properties = Some \<lparr>ws_CustomerId = Some ''customer1''\<rparr>\<rparr>\<rparr>,
               None)),
      Workspaces_SharedKeysGetSharedKeys =
        (\<lambda>i. (\<lparr>HttpResponse = Some (Response 200),
                 Model = Some \<lparr>PrimarySharedKey = Some ''key1''\<rparr>\<rparr>, None))\<rparr>"

text \<open>
  A remote side where the registry exists and nothing else does: every other call
  answers with a not-found error.
\<close>

definition not_found :: error where
  "not_found = ResponseError 404 ''the resource was not found''"

definition client_absent :: Client where
  "client_absent =
     \<lparr>Account_SubscriptionId = ''sub1'',
      Registries_Get = (\<lambda>i. (\<lparr>HttpResponse = Some (Response 200), Model = Some ()\<rparr>, None)),
      CacheRules_Get =
        (\<lambda>i. (\<lparr>HttpResponse = Some (Response 404), Model = None\<rparr>, Some not_found)),
      CacheRules_CreateThenPoll = (\<lambda>i p. None),
      CacheRules_UpdateThenPoll = (\<lambda>i p. Some not_found),
      CacheRules_DeleteThenPoll = (\<lambda>i. Some not_found),
      ManagedEnvironments_Get =
        (\<lambda>i. (\<lparr>HttpResponse = Some (Response 404), Model = None\<rparr>, Some not_found)),
      ManagedEnvironments_CreateOrUpdateThenPoll = (\<lambda>i p. None),
      ManagedEnvironments_DeleteThenPoll = (\<lambda>i. Some not_found),
      Workspaces_Get =
        (\<lambda>i. (\<lparr>HttpResponse = Some (Response 404), Model = None\<rparr>, Some not_found)),
      Workspaces_SharedKeysGetSharedKeys =
        (\<lambda>i. (\<lparr>HttpResponse = Some (Response 404), Model = None\<rparr>, Some not_found))\<rparr>"

text \<open>A remote side that answers every cache rule and environment call with a server error.\<close>

definition server_error :: error where
  "server_error = ResponseError 500 ''internal server error''"

definition client_failing :: Client where
  "client_failing =
     \<lparr>Account_SubscriptionId = ''sub1'',
      Registries_Get = (\<lambda>i. (\<lparr>HttpResponse = Some (Response 200), Model = Some ()\<rparr>, None)),
      CacheRules_Get =
        (\<lambda>i. (\<lparr>HttpResponse = Some (Response 500), Model = None\<rparr>, Some server_error)),
      CacheRules_CreateThenPoll = (\<lambda>i p. Some server_error),
      CacheRules_UpdateThenPoll = (\<lambda>i p. Some server_error),
      CacheRules_DeleteThenPoll = (\<lambda>i. Some server_error),
      ManagedEnvironments_Get =
        (\<lambda>i. (\<lparr>HttpResponse = Some (Response 500), Model = None\<rparr>, Some server_error)),
      ManagedEnvironments_CreateOrUpdateThenPoll = (\<lambda>i p. Some server_error),
      ManagedEnvironments_DeleteThenPoll = (\<lambda>i. Some server_error),
      Workspaces_Get =
        (\<lambda>i. (\<lparr>HttpResponse = Some (Response 500), Model = None\<rparr>, Some server_error)),
      Workspaces_SharedKeysGetSharedKeys =
        (\<lambda>i. (\<lparr>HttpResponse = Some (Response 500), Model = None\<rparr>, Some server_error))\<rparr>"

definition example_config :: ContainerAppEnvironmentModel where
  "example_config =
     zero_ContainerAppEnvironmentModel
       \<lparr>Name := ''env1'', ResourceGroup := ''group1'', Location := ''westeurope'',
        LogDestination := ''log-analytics'', LogAnalyticsWorkspaceId := ''workspace:1''\<rparr>"

definition example_resource_data :: "string \<Rightarrow> ResourceData" where
  "example_resource_data state_id =
     \<lparr>rd_Id = state_id,
      rd_Get = (\<lambda>k. if k = ''container_registry_id'' then ''registry:1''
                    else if k = ''name'' then ''testacc-cr-cache-rule-123''
                    else if k = ''source_repo'' then ''docker.io/hello-world''
                    else if k = ''target_repo'' then ''target''
                    else if k = ''log_analytics_workspace_id'' then ''workspace:1''
                    else []),
      rd_HasChange = (\<lambda>k. False),
      rd_Set = Map.empty\<rparr>"

definition example_metadata :: "Client \<Rightarrow> string \<Rightarrow> metadata" where
  "example_metadata client state_id =
     \<lparr>Client = client,
      ResourceData = example_resource_data state_id,
      Decode = Inr example_config,
      Encode = (\<lambda>state. None),
      encoded = None,
      calls = []\<rparr>"

text \<open>
  A configuration that says nothing about logging, and a metadata bundle for it in which
  only the tags changed; the remote side is \<open>client_present\<close>, whose environment logs to
  log analytics.
\<close>

definition example_tags :: "string \<rightharpoonup> string" where
  "example_tags = [''team'' \<mapsto> ''platform'']"

definition silent_config :: ContainerAppEnvironmentModel where
  "silent_config =
     zero_ContainerAppEnvironmentModel
       \<lparr>Name := ''env1'', ResourceGroup := ''group1'', Location := ''westeurope'',
        Tags := example_tags\<rparr>"

definition tags_only_metadata :: metadata where
  "tags_only_metadata =
     \<lparr>Client = client_present,
      ResourceData =
        \<lparr>rd_Id = ''env:1'',
         rd_Get = (\<lambda>k. []),
         rd_HasChange = (\<lambda>k. k = ''tags''),
         rd_Set = Map.empty\<rparr>,
      Decode = Inr silent_config,
      Encode = (\<lambda>state. None),
      encoded = None,
      calls = []\<rparr>"

section \<open>The identifier codec\<close>

text \<open>
  Modelled from the spec: the identifier codec of the firewall policy
  (\<open>NewFirewallPolicyID\<close>, the method \<open>ID\<close> and the parser \<open>FirewallPolicyID\<close>) is not
  among the source files; only its tests are. The tests give the shape: an identifier
  has a resource group and a name, formatting takes the subscription as an argument and
  gives
  \<open>/subscriptions/{sub}/resourceGroups/{rg}/providers/Microsoft.Network/firewallPolicies/{name}\<close>,
  and parsing gives back the resource group and the name. The spec gives the failures
  of parsing: an empty string, a missing segment, an empty value of a required segment,
  a literal token that does not match exactly, a missing leading separator.
\<close>

datatype FirewallPolicyId = NewFirewallPolicyID (fp_ResourceGroup: string) (fp_Name: string)

text \<open>
  Modelled from the spec: the formatter \<open>ID\<close> of the firewall policy identifier (not
  among the source files), with the path of the formatter test.
\<close>

definition FirewallPolicyId_ID :: "FirewallPolicyId \<Rightarrow> string \<Rightarrow> string" where
  "FirewallPolicyId_ID id' subscriptionId =
     ''/subscriptions/'' @ subscriptionId @ ''/resourceGroups/'' @ fp_ResourceGroup id'
       @ ''/providers/Microsoft.Network/firewallPolicies/'' @ fp_Name id'"

text \<open>Splitting a path at every separator; the segments of \<open>"/a/b"\<close> are \<open>""\<close>, \<open>a\<close>, \<open>b\<close>.\<close>

fun split_on :: "char \<Rightarrow> string \<Rightarrow> string list" where
  "split_on c [] = [[]]"
| "split_on c (x # xs) =
     (if x = c then [] # split_on c xs
      else (case split_on c xs of
              [] \<Rightarrow> [[x]]
            | y # ys \<Rightarrow> (x # y) # ys))"

text \<open>
  Modelled from the spec: the parser \<open>FirewallPolicyID\<close> (not among the source files).
  The path must have exactly the segments of the format, with an empty segment before
  the leading separator, the literal tokens as they are written, and no empty value.
\<close>

definition FirewallPolicyID :: "string \<Rightarrow> error + FirewallPolicyId" where
  "FirewallPolicyID input =
     (case split_on CHR ''/'' input of
        [leading, subscriptions, subscriptionId, resourceGroups, resourceGroup,
         providers, provider, firewallPolicies, name] \<Rightarrow>
          if leading = []
             \<and> subscriptions = ''subscriptions'' \<and> subscriptionId \<noteq> []
             \<and> resourceGroups = ''resourceGroups'' \<and> resourceGroup \<noteq> []
             \<and> providers = ''providers'' \<and> provider = ''Microsoft.Network''
             \<and> firewallPolicies = ''firewallPolicies'' \<and> name \<noteq> []
          then Inr (NewFirewallPolicyID resourceGroup name)
          else Inl (ParseError input)
      | _ \<Rightarrow> Inl (ParseError input))"

text \<open>
  A valid component: a value of a path segment, so not empty (parsing rejects an empty
  value) and without the separator.
\<close>

definition valid_segment :: "string \<Rightarrow> bool" where
  "valid_segment s = (s \<noteq> [] \<and> CHR ''/'' \<notin> set s)"

text \<open>
  The table of the parser's test: each input with the identifier the test expects,
  \<open>None\<close> where it expects an error.
\<close>

definition FirewallPolicyID_cases :: "(string \<times> FirewallPolicyId option) list" where
  "FirewallPolicyID_cases =
     [([], None),
      (''/subscriptions/00000000-0000-0000-0000-000000000000'', None),
      (''/subscriptions/00000000-0000-0000-0000-000000000000/resourceGroups/'', None),
      (''/subscriptions/00000000-0000-0000-0000-000000000000/resourceGroups/group1/'', None),
      (''/subscriptions/00000000-0000-0000-0000-000000000000/resourceGroups/group1/providers/Microsoft.Network/firewallPolicies'',
       None),
      (''/subscriptions/00000000-0000-0000-0000-000000000000/resourceGroups/group1/providers/Microsoft.Network/foo/bar/firewallPolicies/policy1'',
       None),
      (''subscriptions/00000000-0000-0000-0000-000000000000/resourceGroups/group1/providers/Microsoft.Network/firewallPolicies/policy1'',
       None),
      (''/subscriptions/00000000-0000-0000-0000-000000000000/resourceGroups/group1/providers/Microsoft.Network/firewallPolicies/policy1'',
       Some (NewFirewallPolicyID ''group1'' ''policy1''))]"

definition parsed :: "error + 'a \<Rightarrow> 'a option" where
  "parsed r = (case r of Inl err \<Rightarrow> None | Inr v \<Rightarrow> Some v)"

section \<open>Theorems\<close>

lemmas example_defs =
  example_lib_def example_metadata_def example_resource_data_def example_registry_id_def
  example_cache_rule_id_def example_environment_id_def example_workspace_id_def
  example_config_def zero_ContainerAppEnvironmentModel_def

lemmas destination_defs =
  LogDestinationMissing_def LogDestinationNone_def LogDestinationLogAnalytics_def
  LogDestinationAzureMonitor_def

subsection \<open>Creating a resource that exists\<close>

text \<open>
  C1. When the Get that precedes the creation does not answer "not found", Create fails
  and issues no create call: the only calls are the Gets. The error is the
  import-required error when the Get succeeded (the resource exists), and the wrapped
  error of the existence check when the Get failed with anything but "not found". When
  the Get answers "not found", Create goes on: the cache rule issues its create call,
  and the container app environment issues it once its app logs configuration is
  built. This holds for the cache rule once its registry was parsed and read, and for
  the container app environment once its configuration was decoded.
\<close>

theorem C1_create_existing_requires_import:
  "(ParseRegistryID lib (rd_Get (ResourceData metadata) ''container_registry_id'') = Inr registryId
      \<and> snd (Registries_Get (Client metadata) registryId) = None
      \<and> cacheRuleId = NewCacheRuleID (Account_SubscriptionId (Client metadata))
            (reg_ResourceGroupName registryId) (reg_RegistryName registryId)
            (rd_Get (ResourceData metadata) ''name'')
      \<and> \<not> WasNotFound (HttpResponse (fst (CacheRules_Get (Client metadata) cacheRuleId)))
    \<longrightarrow> Func (ContainerRegistryCacheRule_Create lib) metadata =
          (Err (case snd (CacheRules_Get (Client metadata) cacheRuleId) of
                  None \<Rightarrow> ImportAsExistsError ''azurerm_container_registry_cache_rule''
                            (CacheRuleIdOf cacheRuleId)
                | Some err \<Rightarrow> Errorf ''checking for presence of existing %s: %s''
                               [ArgId (CacheRuleIdOf cacheRuleId), ArgErr err]),
           metadata\<lparr>calls := calls metadata
                      @ [Call_Registries_Get registryId, Call_CacheRules_Get cacheRuleId]\<rparr>))
   \<and> (ParseRegistryID lib (rd_Get (ResourceData metadata) ''container_registry_id'') = Inr registryId
      \<and> snd (Registries_Get (Client metadata) registryId) = None
      \<and> cacheRuleId = NewCacheRuleID (Account_SubscriptionId (Client metadata))
            (reg_ResourceGroupName registryId) (reg_RegistryName registryId)
            (rd_Get (ResourceData metadata) ''name'')
      \<and> WasNotFound (HttpResponse (fst (CacheRules_Get (Client metadata) cacheRuleId)))
    \<longrightarrow> calls (snd (Func (ContainerRegistryCacheRule_Create lib) metadata)) =
          calls metadata
          @ [Call_Registries_Get registryId, Call_CacheRules_Get cacheRuleId,
             Call_CacheRules_CreateThenPoll cacheRuleId
               \<lparr>cr_Name = Some (rd_Get (ResourceData metadata) ''name''),
                cr_Properties = Some
                  \<lparr>SourceRepository = Some (rd_Get (ResourceData metadata) ''source_repo''),
                   TargetRepository = Some (rd_Get (ResourceData metadata) ''target_repo'')\<rparr>\<rparr>])
   \<and> (Decode metadata = Inr containerAppEnvironment
      \<and> environmentId = NewManagedEnvironmentID (Account_SubscriptionId (Client metadata))
            (ResourceGroup containerAppEnvironment) (Name containerAppEnvironment)
      \<and> \<not> WasNotFound (HttpResponse (fst (ManagedEnvironments_Get (Client metadata) environmentId)))
    \<longrightarrow> Func (ContainerAppEnvironmentResource_Create lib) metadata =
          (Err (case snd (ManagedEnvironments_Get (Client metadata) environmentId) of
                  None \<Rightarrow> ImportAsExistsError ''azurerm_container_app_environment''
                            (ManagedEnvironmentIdOf environmentId)
                | Some err \<Rightarrow> Errorf ''checking for presence of existing %s: %+v''
                               [ArgId (ManagedEnvironmentIdOf environmentId), ArgErr err]),
           metadata\<lparr>calls := calls metadata @ [Call_ManagedEnvironments_Get environmentId]\<rparr>))
   \<and> (Decode metadata = Inr containerAppEnvironment
      \<and> environmentId = NewManagedEnvironmentID (Account_SubscriptionId (Client metadata))
            (ResourceGroup containerAppEnvironment) (Name containerAppEnvironment)
      \<and> WasNotFound (HttpResponse (fst (ManagedEnvironments_Get (Client metadata) environmentId)))
      \<and> constructAppLogsConfigurationFromModel lib environmentId containerAppEnvironment
           (metadata\<lparr>calls := calls metadata @ [Call_ManagedEnvironments_Get environmentId]\<rparr>)
         = (Ok appLogsConfiguration, md2)
    \<longrightarrow> (\<exists>managedEnvironment.
          calls (snd (Func (ContainerAppEnvironmentResource_Create lib) metadata)) =
            calls md2
            @ [Call_ManagedEnvironments_CreateOrUpdateThenPoll environmentId managedEnvironment]
          \<and> map_option props_AppLogsConfiguration (me_Properties managedEnvironment)
              = Some appLogsConfiguration))"
proof (intro conjI impI)
  assume a: "ParseRegistryID lib (rd_Get (ResourceData metadata) ''container_registry_id'') = Inr registryId
      \<and> snd (Registries_Get (Client metadata) registryId) = None
      \<and> cacheRuleId = NewCacheRuleID (Account_SubscriptionId (Client metadata))
            (reg_ResourceGroupName registryId) (reg_RegistryName registryId)
            (rd_Get (ResourceData metadata) ''name'')
      \<and> \<not> WasNotFound (HttpResponse (fst (CacheRules_Get (Client metadata) cacheRuleId)))"
  then show "Func (ContainerRegistryCacheRule_Create lib) metadata =
          (Err (case snd (CacheRules_Get (Client metadata) cacheRuleId) of
                  None \<Rightarrow> ImportAsExistsError ''azurerm_container_registry_cache_rule''
                            (CacheRuleIdOf cacheRuleId)
                | Some err \<Rightarrow> Errorf ''checking for presence of existing %s: %s''
                               [ArgId (CacheRuleIdOf cacheRuleId), ArgErr err]),
           metadata\<lparr>calls := calls metadata
                      @ [Call_Registries_Get registryId, Call_CacheRules_Get cacheRuleId]\<rparr>)"
    by (auto simp: ContainerRegistryCacheRule_Create_def Let_def record_call_def
        ResourceRequiresImport_def ContainerRegistryCacheRule_ResourceType_def
        split: option.splits)
next
  assume a: "ParseRegistryID lib (rd_Get (ResourceData metadata) ''container_registry_id'') = Inr registryId
      \<and> snd (Registries_Get (Client metadata) registryId) = None
      \<and> cacheRuleId = NewCacheRuleID (Account_SubscriptionId (Client metadata))
            (reg_ResourceGroupName registryId) (reg_RegistryName registryId)
            (rd_Get (ResourceData metadata) ''name'')
      \<and> WasNotFound (HttpResponse (fst (CacheRules_Get (Client metadata) cacheRuleId)))"
  then show "calls (snd (Func (ContainerRegistryCacheRule_Create lib) metadata)) =
          calls metadata
          @ [Call_Registries_Get registryId, Call_CacheRules_Get cacheRuleId,
             Call_CacheRules_CreateThenPoll cacheRuleId
               \<lparr>cr_Name = Some (rd_Get (ResourceData metadata) ''name''),
                cr_Properties = Some
                  \<lparr>SourceRepository = Some (rd_Get (ResourceData metadata) ''source_repo''),
                   TargetRepository = Some (rd_Get (ResourceData metadata) ''target_repo'')\<rparr>\<rparr>]"
    by (auto simp: ContainerRegistryCacheRule_Create_def Let_def record_call_def SetID_def
        split: option.splits)
next
  assume a: "Decode metadata = Inr containerAppEnvironment
      \<and> environmentId = NewManagedEnvironmentID (Account_SubscriptionId (Client metadata))
            (ResourceGroup containerAppEnvironment) (Name containerAppEnvironment)
      \<and> \<not> WasNotFound (HttpResponse (fst (ManagedEnvironments_Get (Client metadata) environmentId)))"
  then show "Func (ContainerAppEnvironmentResource_Create lib) metadata =
          (Err (case snd (ManagedEnvironments_Get (Client metadata) environmentId) of
                  None \<Rightarrow> ImportAsExistsError ''azurerm_container_app_environment''
                            (ManagedEnvironmentIdOf environmentId)
                | Some err \<Rightarrow> Errorf ''checking for presence of existing %s: %+v''
                               [ArgId (ManagedEnvironmentIdOf environmentId), ArgErr err]),
           metadata\<lparr>calls := calls metadata @ [Call_ManagedEnvironments_Get environmentId]\<rparr>)"
    by (auto simp: ContainerAppEnvironmentResource_Create_def Let_def record_call_def
        ResourceRequiresImport_def ContainerAppEnvironmentResource_ResourceType_def
        split: option.splits)
next
  assume a: "Decode metadata = Inr containerAppEnvironment
      \<and> environmentId = NewManagedEnvironmentID (Account_SubscriptionId (Client metadata))
            (ResourceGroup containerAppEnvironment) (Name containerAppEnvironment)
      \<and> WasNotFound (HttpResponse (fst (ManagedEnvironments_Get (Client metadata) environmentId)))
      \<and> constructAppLogsConfigurationFromModel lib environmentId containerAppEnvironment
           (metadata\<lparr>calls := calls metadata @ [Call_ManagedEnvironments_Get environmentId]\<rparr>)
         = (Ok appLogsConfiguration, md2)"
  note d = a [THEN conjunct1]
    and e = a [THEN conjunct2, THEN conjunct1]
    and w = a [THEN conjunct2, THEN conjunct2, THEN conjunct1]
    and c = a [THEN conjunct2, THEN conjunct2, THEN conjunct2]
  show "\<exists>managedEnvironment.
          calls (snd (Func (ContainerAppEnvironmentResource_Create lib) metadata)) =
            calls md2
            @ [Call_ManagedEnvironments_CreateOrUpdateThenPoll environmentId managedEnvironment]
          \<and> map_option props_AppLogsConfiguration (me_Properties managedEnvironment)
              = Some appLogsConfiguration"
    unfolding ContainerAppEnvironmentResource_Create_def
    using d w c
    by (simp add: Let_def e [symmetric] record_call_def SetID_def split: option.splits)
qed

theorem C1_create_existing_witness:
  "Func (ContainerRegistryCacheRule_Create example_lib) (example_metadata client_present [])
     = (Err (ImportAsExistsError ''azurerm_container_registry_cache_rule''
               (CacheRuleIdOf example_cache_rule_id)),
        (example_metadata client_present [])
          \<lparr>calls := [Call_Registries_Get example_registry_id,
                     Call_CacheRules_Get example_cache_rule_id]\<rparr>)
   \<and> calls (snd (Func (ContainerRegistryCacheRule_Create example_lib)
                   (example_metadata client_absent [])))
     = [Call_Registries_Get example_registry_id, Call_CacheRules_Get example_cache_rule_id,
        Call_CacheRules_CreateThenPoll example_cache_rule_id example_cache_rule]
   \<and> Func (ContainerAppEnvironmentResource_Create example_lib) (example_metadata client_failing [])
     = (Err (Errorf ''checking for presence of existing %s: %+v''
               [ArgId (ManagedEnvironmentIdOf example_environment_id), ArgErr server_error]),
        (example_metadata client_failing [])
          \<lparr>calls := [Call_ManagedEnvironments_Get example_environment_id]\<rparr>)
   \<and> (\<exists>managedEnvironment.
         calls (snd (Func (ContainerAppEnvironmentResource_Create example_lib)
                       ((example_metadata client_absent [])
                          \<lparr>Decode := Inr (example_config\<lparr>LogDestination := ''none''\<rparr>)\<rparr>)))
           = [Call_ManagedEnvironments_Get example_environment_id,
              Call_ManagedEnvironments_CreateOrUpdateThenPoll example_environment_id
                managedEnvironment]
         \<and> map_option props_AppLogsConfiguration (me_Properties managedEnvironment) = Some None)"
proof -
  let ?m = "example_metadata client_present []"
  let ?a = "example_metadata client_absent []"
  let ?n = "example_metadata client_failing []"
  let ?c = "example_config\<lparr>LogDestination := ''none''\<rparr>"
  let ?e = "(example_metadata client_absent [])\<lparr>Decode := Inr ?c\<rparr>"
  let ?e1 = "?e\<lparr>calls := calls ?e @ [Call_ManagedEnvironments_Get example_environment_id]\<rparr>"
  have h1: "ParseRegistryID example_lib (rd_Get (ResourceData ?m) ''container_registry_id'')
              = Inr example_registry_id
      \<and> snd (Registries_Get (Client ?m) example_registry_id) = None
      \<and> example_cache_rule_id = NewCacheRuleID (Account_SubscriptionId (Client ?m))
            (reg_ResourceGroupName example_registry_id) (reg_RegistryName example_registry_id)
            (rd_Get (ResourceData ?m) ''name'')
      \<and> \<not> WasNotFound (HttpResponse (fst (CacheRules_Get (Client ?m) example_cache_rule_id)))"
    by (simp add: example_defs client_present_def WasNotFound_def)
  have h2: "ParseRegistryID example_lib (rd_Get (ResourceData ?a) ''container_registry_id'')
              = Inr example_registry_id
      \<and> snd (Registries_Get (Client ?a) example_registry_id) = None
      \<and> example_cache_rule_id = NewCacheRuleID (Account_SubscriptionId (Client ?a))
            (reg_ResourceGroupName example_registry_id) (reg_RegistryName example_registry_id)
            (rd_Get (ResourceData ?a) ''name'')
      \<and> WasNotFound (HttpResponse (fst (CacheRules_Get (Client ?a) example_cache_rule_id)))"
    by (simp add: example_defs client_absent_def WasNotFound_def)
  have h3: "Decode ?n = Inr example_config
      \<and> example_environment_id = NewManagedEnvironmentID (Account_SubscriptionId (Client ?n))
            (ResourceGroup example_config) (Name example_config)
      \<and> \<not> WasNotFound (HttpResponse (fst (ManagedEnvironments_Get (Client ?n) example_environment_id)))"
    by (simp add: example_defs client_failing_def WasNotFound_def)
  have h4: "Decode ?e = Inr ?c
      \<and> example_environment_id = NewManagedEnvironmentID (Account_SubscriptionId (Client ?e))
            (ResourceGroup ?c) (Name ?c)
      \<and> WasNotFound (HttpResponse (fst (ManagedEnvironments_Get (Client ?e) example_environment_id)))
      \<and> constructAppLogsConfigurationFromModel example_lib example_environment_id ?c ?e1
          = (Ok None, ?e1)"
    by (simp add: example_defs client_absent_def WasNotFound_def
        constructAppLogsConfigurationFromModel_def LogDestinationNone_def)
  have g1: "snd (CacheRules_Get (Client ?m) example_cache_rule_id) = None"
    by (simp add: example_metadata_def client_present_def)
  have g2: "\<lparr>cr_Name = Some (rd_Get (ResourceData ?a) ''name''),
             cr_Properties = Some
               \<lparr>SourceRepository = Some (rd_Get (ResourceData ?a) ''source_repo''),
                TargetRepository = Some (rd_Get (ResourceData ?a) ''target_repo'')\<rparr>\<rparr>
            = example_cache_rule"
    by (simp add: example_metadata_def example_resource_data_def example_cache_rule_def)
  have g3: "snd (ManagedEnvironments_Get (Client ?n) example_environment_id) = Some server_error"
    by (simp add: example_metadata_def client_failing_def)
  have c: "calls ?m = [] \<and> calls ?n = [] \<and> calls ?a = [] \<and> calls ?e = []"
    by (simp add: example_metadata_def)
  from C1_create_existing_requires_import
         [of example_lib ?m example_registry_id example_cache_rule_id]
       C1_create_existing_requires_import
         [of example_lib ?a example_registry_id example_cache_rule_id]
       C1_create_existing_requires_import
         [of example_lib ?n _ _ example_config example_environment_id]
       C1_create_existing_requires_import
         [of example_lib ?e _ _ ?c example_environment_id None ?e1]
       h1 h2 h3 h4 g1 g2 g3 c
  show ?thesis by simp
qed

subsection \<open>Reading a resource that is gone\<close>

text \<open>
  C2. When the Get of a Read fails with "not found", Read marks the resource as gone
  (the identifier in state is dropped) and returns no error; when the Get fails with
  anything else, Read returns an error that wraps the remote error with the operation
  and the identifier. In both cases the Get is the only call.
\<close>

theorem C2_read_not_found_marks_gone:
  "(ParseCacheRuleID lib (rd_Id (ResourceData metadata)) = Inr cacheRuleId
      \<and> snd (CacheRules_Get (Client metadata) cacheRuleId) = Some err
    \<longrightarrow> Func (ContainerRegistryCacheRule_Read lib) metadata =
          (if WasNotFound (HttpResponse (fst (CacheRules_Get (Client metadata) cacheRuleId)))
           then (Ok (),
                 metadata\<lparr>ResourceData := (ResourceData metadata)\<lparr>rd_Id := []\<rparr>,
                          calls := calls metadata @ [Call_CacheRules_Get cacheRuleId]\<rparr>)
           else (Err (Errorf ''retrieving Container Registry Cache Rule %s: %+v''
                        [ArgId (CacheRuleIdOf cacheRuleId), ArgErr err]),
                 metadata\<lparr>calls := calls metadata @ [Call_CacheRules_Get cacheRuleId]\<rparr>)))
   \<and> (ParseManagedEnvironmentID lib (rd_Id (ResourceData metadata)) = Inr environmentId
      \<and> snd (ManagedEnvironments_Get (Client metadata) environmentId) = Some err
    \<longrightarrow> Func (ContainerAppEnvironmentResource_Read lib) metadata =
          (if WasNotFound (HttpResponse (fst (ManagedEnvironments_Get (Client metadata) environmentId)))
           then (Ok (),
                 metadata\<lparr>ResourceData := (ResourceData metadata)\<lparr>rd_Id := []\<rparr>,
                          calls := calls metadata @ [Call_ManagedEnvironments_Get environmentId]\<rparr>)
           else (Err (Errorf ''reading %s: %+v''
                        [ArgId (ManagedEnvironmentIdOf environmentId), ArgErr err]),
                 metadata\<lparr>calls := calls metadata @ [Call_ManagedEnvironments_Get environmentId]\<rparr>)))"
  by (simp add: ContainerRegistryCacheRule_Read_def ContainerAppEnvironmentResource_Read_def
      Let_def record_call_def MarkAsGone_def)

theorem C2_read_not_found_witness:
  "Func (ContainerRegistryCacheRule_Read example_lib) (example_metadata client_absent ''rule:1'')
     = (Ok (),
        (example_metadata client_absent ''rule:1'')
          \<lparr>ResourceData := (example_resource_data ''rule:1'')\<lparr>rd_Id := []\<rparr>,
           calls := [Call_CacheRules_Get example_cache_rule_id]\<rparr>)
   \<and> Func (ContainerAppEnvironmentResource_Read example_lib) (example_metadata client_failing ''env:1'')
     = (Err (Errorf ''reading %s: %+v''
               [ArgId (ManagedEnvironmentIdOf example_environment_id), ArgErr server_error]),
        (example_metadata client_failing ''env:1'')
          \<lparr>calls := [Call_ManagedEnvironments_Get example_environment_id]\<rparr>)"
proof -
  let ?m = "example_metadata client_absent ''rule:1''"
  let ?n = "example_metadata client_failing ''env:1''"
  have h1: "ParseCacheRuleID example_lib (rd_Id (ResourceData ?m)) = Inr example_cache_rule_id
      \<and> snd (CacheRules_Get (Client ?m) example_cache_rule_id) = Some not_found"
    by (simp add: example_defs client_absent_def)
  have h2: "ParseManagedEnvironmentID example_lib (rd_Id (ResourceData ?n)) = Inr example_environment_id
      \<and> snd (ManagedEnvironments_Get (Client ?n) example_environment_id) = Some server_error"
    by (simp add: example_defs client_failing_def)
  have g1: "WasNotFound (HttpResponse (fst (CacheRules_Get (Client ?m) example_cache_rule_id)))"
    by (simp add: example_metadata_def client_absent_def WasNotFound_def)
  have g2: "\<not> WasNotFound (HttpResponse (fst (ManagedEnvironments_Get (Client ?n) example_environment_id)))"
    by (simp add: example_metadata_def client_failing_def WasNotFound_def)
  have c: "calls ?m = [] \<and> calls ?n = [] \<and> ResourceData ?m = example_resource_data ''rule:1''"
    by (simp add: example_metadata_def)
  from C2_read_not_found_marks_gone [of example_lib ?m example_cache_rule_id not_found]
       C2_read_not_found_marks_gone [of example_lib ?n _ server_error example_environment_id]
       h1 h2 g1 g2 c
  show ?thesis by simp
qed

subsection \<open>Deleting\<close>

text \<open>
  C3, as stated, fails: when the delete-and-poll call answers with a not-found error,
  both Delete functions return an error that wraps it.
\<close>

theorem C3_delete_not_found_counterexample:
  "CacheRules_DeleteThenPoll client_absent example_cache_rule_id
     = Some (ResponseError 404 ''the resource was not found'')
   \<and> fst (Func (ContainerRegistryCacheRule_Delete example_lib)
            (example_metadata client_absent ''rule:1''))
     = Err (Errorf ''deleting Container Registry Cache Rule %s: %+v''
              [ArgId (CacheRuleIdOf example_cache_rule_id),
               ArgErr (ResponseError 404 ''the resource was not found'')])
   \<and> ManagedEnvironments_DeleteThenPoll client_absent example_environment_id
     = Some (ResponseError 404 ''the resource was not found'')
   \<and> fst (Func (ContainerAppEnvironmentResource_Delete example_lib)
            (example_metadata client_absent ''env:1''))
     = Err (Errorf ''deleting %s: %+v''
              [ArgId (ManagedEnvironmentIdOf example_environment_id),
               ArgErr (ResponseError 404 ''the resource was not found'')])"
  by (simp add: ContainerRegistryCacheRule_Delete_def ContainerAppEnvironmentResource_Delete_def
      example_defs client_absent_def not_found_def Let_def)

text \<open>
  C3, amended. For every Delete whose identifier parses, Delete issues the
  delete-and-poll call and returns no error exactly when the call returned none; every
  error of the call, a not-found one included, is returned wrapped with the operation
  and the identifier.
\<close>

theorem C3_delete_every_error_is_fatal:
  "(ParseCacheRuleID lib (rd_Id (ResourceData metadata)) = Inr cacheRuleId
    \<longrightarrow> Func (ContainerRegistryCacheRule_Delete lib) metadata =
          ((case CacheRules_DeleteThenPoll (Client metadata) cacheRuleId of
              None \<Rightarrow> Ok ()
            | Some err \<Rightarrow> Err (Errorf ''deleting Container Registry Cache Rule %s: %+v''
                                 [ArgId (CacheRuleIdOf cacheRuleId), ArgErr err])),
           metadata\<lparr>calls := calls metadata @ [Call_CacheRules_DeleteThenPoll cacheRuleId]\<rparr>))
   \<and> (ParseManagedEnvironmentID lib (rd_Id (ResourceData metadata)) = Inr environmentId
    \<longrightarrow> Func (ContainerAppEnvironmentResource_Delete lib) metadata =
          ((case ManagedEnvironments_DeleteThenPoll (Client metadata) environmentId of
              None \<Rightarrow> Ok ()
            | Some err \<Rightarrow> Err (Errorf ''deleting %s: %+v''
                                 [ArgId (ManagedEnvironmentIdOf environmentId), ArgErr err])),
           metadata\<lparr>calls := calls metadata
                      @ [Call_ManagedEnvironments_DeleteThenPoll environmentId]\<rparr>))"
  by (simp add: ContainerRegistryCacheRule_Delete_def ContainerAppEnvironmentResource_Delete_def
      Let_def record_call_def split: option.splits)

theorem C3_delete_every_error_witness:
  "Func (ContainerRegistryCacheRule_Delete example_lib) (example_metadata client_present ''rule:1'')
     = (Ok (),
        (example_metadata client_present ''rule:1'')
          \<lparr>calls := [Call_CacheRules_DeleteThenPoll example_cache_rule_id]\<rparr>)
   \<and> Func (ContainerAppEnvironmentResource_Delete example_lib) (example_metadata client_failing ''env:1'')
     = (Err (Errorf ''deleting %s: %+v''
               [ArgId (ManagedEnvironmentIdOf example_environment_id), ArgErr server_error]),
        (example_metadata client_failing ''env:1'')
          \<lparr>calls := [Call_ManagedEnvironments_DeleteThenPoll example_environment_id]\<rparr>)"
proof -
  let ?m = "example_metadata client_present ''rule:1''"
  let ?n = "example_metadata client_failing ''env:1''"
  have h1: "ParseCacheRuleID example_lib (rd_Id (ResourceData ?m)) = Inr example_cache_rule_id"
    by (simp add: example_defs)
  have h2: "ParseManagedEnvironmentID example_lib (rd_Id (ResourceData ?n)) = Inr example_environment_id"
    by (simp add: example_defs)
  have g1: "CacheRules_DeleteThenPoll (Client ?m) example_cache_rule_id = None"
    by (simp add: example_metadata_def client_present_def)
  have g2: "ManagedEnvironments_DeleteThenPoll (Client ?n) example_environment_id = Some server_error"
    by (simp add: example_metadata_def client_failing_def)
  have c: "calls ?m = [] \<and> calls ?n = []" by (simp add: example_metadata_def)
  from C3_delete_every_error_is_fatal [of example_lib ?m example_cache_rule_id]
       C3_delete_every_error_is_fatal [of example_lib ?n _ example_environment_id]
       h1 h2 g1 g2 c
  show ?thesis by simp
qed

subsection \<open>Updating\<close>

lemma construct_keeps_client:
  "Client (snd (constructAppLogsConfigurationFromModel lib i state md)) = Client md"
  by (simp add: constructAppLogsConfigurationFromModel_def Let_def record_call_def
      split: sum.splits option.splits)

lemma environment_update_unfold:
  "ParseManagedEnvironmentID lib (rd_Id (ResourceData metadata)) = Inr environmentId
     \<and> Decode metadata = Inr state
     \<and> ManagedEnvironments_Get (Client metadata) environmentId = (existing, None)
     \<and> Model existing = Some model
     \<and> me_Properties model = Some properties
   \<longrightarrow> Func (ContainerAppEnvironmentResource_Update lib) metadata =
        (let md1 = metadata\<lparr>calls := calls metadata
                      @ [Call_ManagedEnvironments_Get environmentId]\<rparr>;
             request = update_request lib (ResourceData metadata) state model properties
         in
         if desired_log_destination state = remote_log_destination properties
         then issue_update environmentId (request None) md1
         else if desired_log_destination state = LogDestinationNone
         then issue_update environmentId
                (request (Some \<lparr>Destination = None, logs_LogAnalyticsConfiguration = None\<rparr>)) md1
         else
           (case constructAppLogsConfigurationFromModel lib environmentId
                   (state\<lparr>LogDestination := desired_log_destination state\<rparr>) md1 of
              (Ok appLogs, md2) \<Rightarrow> issue_update environmentId (request appLogs) md2
            | (Err err, md2) \<Rightarrow> (Err err, md2)
            | (Panic p, md2) \<Rightarrow> (Panic p, md2)))"
proof (intro impI, elim conjE)
  assume p: "ParseManagedEnvironmentID lib (rd_Id (ResourceData metadata)) = Inr environmentId"
    and d: "Decode metadata = Inr state"
    and g: "ManagedEnvironments_Get (Client metadata) environmentId = (existing, None)"
    and m: "Model existing = Some model"
    and q: "me_Properties model = Some properties"
  let ?md1 = "metadata\<lparr>calls := calls metadata @ [Call_ManagedEnvironments_Get environmentId]\<rparr>"
  let ?st = "state\<lparr>LogDestination := desired_log_destination state\<rparr>"
  have st: "(if LogDestination state = LogDestinationMissing
             then (if LogAnalyticsWorkspaceId state \<noteq> []
                   then state\<lparr>LogDestination := LogDestinationLogAnalytics\<rparr>
                   else state\<lparr>LogDestination := LogDestinationNone\<rparr>)
             else state) = ?st"
    by (simp add: desired_log_destination_def)
  have k: "Client (snd (constructAppLogsConfigurationFromModel lib environmentId ?st ?md1))
             = Client metadata"
    by (simp add: construct_keeps_client)
  obtain r md2 where c: "constructAppLogsConfigurationFromModel lib environmentId ?st ?md1 = (r, md2)"
    by (cases "constructAppLogsConfigurationFromModel lib environmentId ?st ?md1") auto
  with k have k2: "Client md2 = Client metadata" by simp
  show "Func (ContainerAppEnvironmentResource_Update lib) metadata =
        (let md1 = ?md1;
             request = update_request lib (ResourceData metadata) state model properties
         in
         if desired_log_destination state = remote_log_destination properties
         then issue_update environmentId (request None) md1
         else if desired_log_destination state = LogDestinationNone
         then issue_update environmentId
                (request (Some \<lparr>Destination = None, logs_LogAnalyticsConfiguration = None\<rparr>)) md1
         else
           (case constructAppLogsConfigurationFromModel lib environmentId ?st md1 of
              (Ok appLogs, md2) \<Rightarrow> issue_update environmentId (request appLogs) md2
            | (Err err, md2) \<Rightarrow> (Err err, md2)
            | (Panic p, md2) \<Rightarrow> (Panic p, md2)))"
    unfolding ContainerAppEnvironmentResource_Update_def
    using p d g m q
    apply (simp add: Let_def record_call_def st)
    apply (simp add: c k2 issue_update_def update_request_def remote_log_destination_def
        split: result.splits option.splits)
    done
qed

lemma environment_update_early_returns:
  "(ParseManagedEnvironmentID lib (rd_Id (ResourceData metadata)) = Inl err
      \<longrightarrow> Func (ContainerAppEnvironmentResource_Update lib) metadata = (Err err, metadata))
   \<and> (ParseManagedEnvironmentID lib (rd_Id (ResourceData metadata)) = Inr environmentId
        \<and> Decode metadata = Inl err
      \<longrightarrow> Func (ContainerAppEnvironmentResource_Update lib) metadata
            = (Err (Errorf ''decoding: %+v'' [ArgErr err]), metadata))
   \<and> (ParseManagedEnvironmentID lib (rd_Id (ResourceData metadata)) = Inr environmentId
        \<and> Decode metadata = Inr state
        \<and> snd (ManagedEnvironments_Get (Client metadata) environmentId) = Some err
      \<longrightarrow> Func (ContainerAppEnvironmentResource_Update lib) metadata
            = (Err (Errorf ''reading %s: %+v''
                      [ArgId (ManagedEnvironmentIdOf environmentId), ArgErr err]),
               metadata\<lparr>calls := calls metadata
                          @ [Call_ManagedEnvironments_Get environmentId]\<rparr>))"
  by (simp add: ContainerAppEnvironmentResource_Update_def Let_def record_call_def)

text \<open>
  C4, as stated, fails on both resources. The Update of the cache rule issues one
  update call with empty properties and nothing else: no Get, no decoding. The Update
  of the container app environment, on a configuration that changes nothing (the tags
  are unchanged and the log destination is the remote one), does not send the
  representation it read: it sends it without its app logs configuration.
\<close>

theorem C4_update_counterexample:
  "calls (snd (Func (ContainerRegistryCacheRule_Update example_lib)
                 (example_metadata client_present ''rule:1'')))
     = [Call_CacheRules_UpdateThenPoll example_cache_rule_id
          \<lparr>up_Properties = Some \<lparr>CredentialSetResourceId = None\<rparr>\<rparr>]
   \<and> rd_HasChange (ResourceData (example_metadata client_present ''env:1'')) ''tags'' = False
   \<and> LogDestination example_config = ''log-analytics''
   \<and> fst (ManagedEnvironments_Get client_present example_environment_id)
     = \<lparr>HttpResponse = Some (Response 200), Model = Some example_environment\<rparr>
   \<and> map_option props_AppLogsConfiguration (me_Properties example_environment)
     = Some (Some example_log_analytics)
   \<and> Destination example_log_analytics = Some ''log-analytics''
   \<and> calls (snd (Func (ContainerAppEnvironmentResource_Update example_lib)
                   (example_metadata client_present ''env:1'')))
     = [Call_ManagedEnvironments_Get example_environment_id,
        Call_ManagedEnvironments_CreateOrUpdateThenPoll example_environment_id
          (example_environment\<lparr>me_Properties := Some
             \<lparr>props_AppLogsConfiguration = None,
              props_DaprAIConnectionString = None,
              props_DefaultDomain = Some ''env1.example.net'',
              props_StaticIP = Some ''10.0.0.4'',
              props_VnetConfiguration = None,
              props_WorkloadProfiles = None,
              props_ZoneRedundant = Some False\<rparr>\<rparr>)]
   \<and> example_environment\<lparr>me_Properties := Some
             \<lparr>props_AppLogsConfiguration = None,
              props_DaprAIConnectionString = None,
              props_DefaultDomain = Some ''env1.example.net'',
              props_StaticIP = Some ''10.0.0.4'',
              props_VnetConfiguration = None,
              props_WorkloadProfiles = None,
              props_ZoneRedundant = Some False\<rparr>\<rparr>
     \<noteq> example_environment"
proof -
  have a: "calls (snd (Func (ContainerRegistryCacheRule_Update example_lib)
                 (example_metadata client_present ''rule:1'')))
     = [Call_CacheRules_UpdateThenPoll example_cache_rule_id
          \<lparr>up_Properties = Some \<lparr>CredentialSetResourceId = None\<rparr>\<rparr>]"
    by (simp add: ContainerRegistryCacheRule_Update_def example_defs client_present_def
        Let_def record_call_def SetID_def)
  have b: "rd_HasChange (ResourceData (example_metadata client_present ''env:1'')) ''tags'' = False
   \<and> LogDestination example_config = ''log-analytics''
   \<and> fst (ManagedEnvironments_Get client_present example_environment_id)
     = \<lparr>HttpResponse = Some (Response 200), Model = Some example_environment\<rparr>
   \<and> map_option props_AppLogsConfiguration (me_Properties example_environment)
     = Some (Some example_log_analytics)
   \<and> Destination example_log_analytics = Some ''log-analytics''"
    by (simp add: example_defs client_present_def example_environment_def example_log_analytics_def)
  have c: "calls (snd (Func (ContainerAppEnvironmentResource_Update example_lib)
                   (example_metadata client_present ''env:1'')))
     = [Call_ManagedEnvironments_Get example_environment_id,
        Call_ManagedEnvironments_CreateOrUpdateThenPoll example_environment_id
          (example_environment\<lparr>me_Properties := Some
             \<lparr>props_AppLogsConfiguration = None,
              props_DaprAIConnectionString = None,
              props_DefaultDomain = Some ''env1.example.net'',
              props_StaticIP = Some ''10.0.0.4'',
              props_VnetConfiguration = None,
              props_WorkloadProfiles = None,
              props_ZoneRedundant = Some False\<rparr>\<rparr>)]"
    by (simp add: ContainerAppEnvironmentResource_Update_def example_defs client_present_def
        example_environment_def example_log_analytics_def destination_defs
        Let_def record_call_def)
  have d: "example_environment\<lparr>me_Properties := Some
             \<lparr>props_AppLogsConfiguration = None,
              props_DaprAIConnectionString = None,
              props_DefaultDomain = Some ''env1.example.net'',
              props_StaticIP = Some ''10.0.0.4'',
              props_VnetConfiguration = None,
              props_WorkloadProfiles = None,
              props_ZoneRedundant = Some False\<rparr>\<rparr>
     \<noteq> example_environment"
    by (simp add: example_environment_def)
  from a b c d show ?thesis by (intro conjI) simp_all
qed

text \<open>
  C4, amended, for the Update of the container app environment. It parses the
  identifier (a parse error is returned as it is), decodes the configuration (an error
  is returned as a decoding error), then reads the remote representation (an error is
  returned as a reading error). When the Get answers with a model that has properties,
  the request is that representation with the configured tags if the tags changed, and
  with its app logs configuration set as follows: to nothing when the desired log
  destination is the remote one; to an empty configuration when the desired destination
  is "none"; otherwise to the configuration built from the model (an error or panic of
  that construction ends the Update without an update call). Every other field is as
  read, and the update call is issued with that request.
\<close>

theorem C4_environment_update_request:
  "(ParseManagedEnvironmentID lib (rd_Id (ResourceData metadata)) = Inl err
      \<longrightarrow> Func (ContainerAppEnvironmentResource_Update lib) metadata = (Err err, metadata))
   \<and> (ParseManagedEnvironmentID lib (rd_Id (ResourceData metadata)) = Inr environmentId
        \<and> Decode metadata = Inl err
      \<longrightarrow> Func (ContainerAppEnvironmentResource_Update lib) metadata
            = (Err (Errorf ''decoding: %+v'' [ArgErr err]), metadata))
   \<and> (ParseManagedEnvironmentID lib (rd_Id (ResourceData metadata)) = Inr environmentId
        \<and> Decode metadata = Inr state
        \<and> snd (ManagedEnvironments_Get (Client metadata) environmentId) = Some err
      \<longrightarrow> Func (ContainerAppEnvironmentResource_Update lib) metadata
            = (Err (Errorf ''reading %s: %+v''
                      [ArgId (ManagedEnvironmentIdOf environmentId), ArgErr err]),
               metadata\<lparr>calls := calls metadata
                          @ [Call_ManagedEnvironments_Get environmentId]\<rparr>))
   \<and> (ParseManagedEnvironmentID lib (rd_Id (ResourceData metadata)) = Inr environmentId
        \<and> Decode metadata = Inr state
        \<and> ManagedEnvironments_Get (Client metadata) environmentId = (existing, None)
        \<and> Model existing = Some model
        \<and> me_Properties model = Some properties
      \<longrightarrow> Func (ContainerAppEnvironmentResource_Update lib) metadata =
        (let md1 = metadata\<lparr>calls := calls metadata
                      @ [Call_ManagedEnvironments_Get environmentId]\<rparr>;
             request = update_request lib (ResourceData metadata) state model properties
         in
         if desired_log_destination state = remote_log_destination properties
         then issue_update environmentId (request None) md1
         else if desired_log_destination state = LogDestinationNone
         then issue_update environmentId
                (request (Some \<lparr>Destination = None, logs_LogAnalyticsConfiguration = None\<rparr>)) md1
         else
           (case constructAppLogsConfigurationFromModel lib environmentId
                   (state\<lparr>LogDestination := desired_log_destination state\<rparr>) md1 of
              (Ok appLogs, md2) \<Rightarrow> issue_update environmentId (request appLogs) md2
            | (Err err, md2) \<Rightarrow> (Err err, md2)
            | (Panic p, md2) \<Rightarrow> (Panic p, md2))))"
  using environment_update_early_returns [of lib metadata err environmentId state]
    environment_update_unfold [of lib metadata environmentId state existing model properties]
  by blast

theorem C4_environment_update_witness:
  "Func (ContainerAppEnvironmentResource_Update example_lib) (example_metadata client_present ''bad'')
     = (Err (ParseError ''bad''), example_metadata client_present ''bad'')
   \<and> Func (ContainerAppEnvironmentResource_Update example_lib)
        ((example_metadata client_present ''env:1'')\<lparr>Decode := Inl (CodecError ''name'')\<rparr>)
     = (Err (Errorf ''decoding: %+v'' [ArgErr (CodecError ''name'')]),
        (example_metadata client_present ''env:1'')\<lparr>Decode := Inl (CodecError ''name'')\<rparr>)
   \<and> Func (ContainerAppEnvironmentResource_Update example_lib) (example_metadata client_failing ''env:1'')
     = (Err (Errorf ''reading %s: %+v''
               [ArgId (ManagedEnvironmentIdOf example_environment_id), ArgErr server_error]),
        (example_metadata client_failing ''env:1'')
          \<lparr>calls := [Call_ManagedEnvironments_Get example_environment_id]\<rparr>)
   \<and> Func (ContainerAppEnvironmentResource_Update example_lib) (example_metadata client_present ''env:1'')
     = (Ok (),
        (example_metadata client_present ''env:1'')
          \<lparr>calls := [Call_ManagedEnvironments_Get example_environment_id,
                     Call_ManagedEnvironments_CreateOrUpdateThenPoll example_environment_id
                       (example_environment\<lparr>me_Properties := Some
                          \<lparr>props_AppLogsConfiguration = None,
                           props_DaprAIConnectionString = None,
                           props_DefaultDomain = Some ''env1.example.net'',
                           props_StaticIP = Some ''10.0.0.4'',
                           props_VnetConfiguration = None,
                           props_WorkloadProfiles = None,
                           props_ZoneRedundant = Some False\<rparr>\<rparr>)]\<rparr>)"
proof -
  let ?b = "example_metadata client_present ''bad''"
  let ?d = "(example_metadata client_present ''env:1'')\<lparr>Decode := Inl (CodecError ''name'')\<rparr>"
  let ?f = "example_metadata client_failing ''env:1''"
  let ?m = "example_metadata client_present ''env:1''"
  let ?p = "\<lparr>props_AppLogsConfiguration = Some example_log_analytics,
              props_DaprAIConnectionString = None,
              props_DefaultDomain = Some ''env1.example.net'',
              props_StaticIP = Some ''10.0.0.4'',
              props_VnetConfiguration = None,
              props_WorkloadProfiles = None,
              props_ZoneRedundant = Some False\<rparr>"
  let ?e = "\<lparr>HttpResponse = Some (Response 200), Model = Some example_environment\<rparr>"
  have hb: "ParseManagedEnvironmentID example_lib (rd_Id (ResourceData ?b)) = Inl (ParseError ''bad'')"
    by (simp add: example_defs)
  have hd: "ParseManagedEnvironmentID example_lib (rd_Id (ResourceData ?d)) = Inr example_environment_id
        \<and> Decode ?d = Inl (CodecError ''name'')"
    by (simp add: example_defs)
  have hf: "ParseManagedEnvironmentID example_lib (rd_Id (ResourceData ?f)) = Inr example_environment_id
        \<and> Decode ?f = Inr example_config
        \<and> snd (ManagedEnvironments_Get (Client ?f) example_environment_id) = Some server_error
        \<and> calls ?f = []"
    by (simp add: example_defs client_failing_def)
  have hm: "ParseManagedEnvironmentID example_lib (rd_Id (ResourceData ?m)) = Inr example_environment_id
        \<and> Decode ?m = Inr example_config
        \<and> ManagedEnvironments_Get (Client ?m) example_environment_id = (?e, None)
        \<and> Model ?e = Some example_environment
        \<and> me_Properties example_environment = Some ?p"
    by (simp add: example_defs client_present_def example_environment_def)
  have dest: "desired_log_destination example_config = remote_log_destination ?p"
    by (simp add: desired_log_destination_def remote_log_destination_def example_defs
        example_log_analytics_def destination_defs)
  have send: "issue_update example_environment_id
                (update_request example_lib (ResourceData ?m) example_config example_environment ?p None)
                (?m\<lparr>calls := calls ?m @ [Call_ManagedEnvironments_Get example_environment_id]\<rparr>)
     = (Ok (),
        ?m\<lparr>calls := [Call_ManagedEnvironments_Get example_environment_id,
                     Call_ManagedEnvironments_CreateOrUpdateThenPoll example_environment_id
                       (example_environment\<lparr>me_Properties := Some
                          (?p\<lparr>props_AppLogsConfiguration := None\<rparr>)\<rparr>)]\<rparr>)"
    by (simp add: issue_update_def update_request_def example_metadata_def
        example_resource_data_def client_present_def example_environment_def)
  from C4_environment_update_request [of example_lib ?b "ParseError ''bad''"]
       C4_environment_update_request [of example_lib ?d "CodecError ''name''" example_environment_id]
       C4_environment_update_request [of example_lib ?f server_error example_environment_id example_config]
       C4_environment_update_request
         [of example_lib ?m _ example_environment_id example_config ?e example_environment ?p]
       hb hd hf hm dest send
  show ?thesis by (simp add: Let_def)
qed

subsection \<open>The validation of the cache rule name\<close>

text \<open>
  C5. The validation that the schema of the cache rule applies to \<open>name\<close> is
  \<open>StringLenBetween(5, 40)\<close>. Run on the table of the name validation test, it gives
  another number of errors than the test expects on five of the twelve values: one
  error instead of two on the empty name, none instead of one on the names with an
  underscore and with \<open>@\<close>, and one instead of none on the names of 48 and 49
  characters.
\<close>

theorem C5_schema_name_validation_against_test:
  "map fst (filter (\<lambda>(v, n). length (validate_field (ContainerRegistryCacheRule_Arguments lib) ''name'' v) \<noteq> n)
              name_validation_cases)
     = [[], ''hello_world'', ''hello@world'',
        ''qfvbdsbvipqdbwsbddbdcwqffewsqwcdw21ddwqwd3324120'',
        ''qfvbdsbvipqdbwsbddbdcwqffewsqwcdw21ddwqwd33241202'']
   \<and> validate_field (ContainerRegistryCacheRule_Arguments lib) ''name'' ''hello_world'' = []
   \<and> length (validate_field (ContainerRegistryCacheRule_Arguments lib) ''name''
               ''qfvbdsbvipqdbwsbddbdcwqffewsqwcdw21ddwqwd33241202'') = 1
   \<and> length ''qfvbdsbvipqdbwsbddbdcwqffewsqwcdw21ddwqwd33241202'' = 49"
  by (simp add: name_validation_cases_def validate_field_def ContainerRegistryCacheRule_Arguments_def
      StringLenBetween_def)

subsection \<open>Updating without a change of the log destination\<close>

text \<open>
  C6, as stated, fails. A configuration that says nothing about logging (no log
  destination, no workspace), applied with only the tags changed to an environment that
  logs to log analytics, makes Update send the empty app logs configuration, which
  clears the remote one: a missing destination without a workspace stands for "none",
  and "none" is not the remote destination.
\<close>

theorem C6_update_silent_config_counterexample:
  "Decode tags_only_metadata = Inr silent_config
   \<and> LogDestination silent_config = []
   \<and> LogAnalyticsWorkspaceId silent_config = []
   \<and> rd_HasChange (ResourceData tags_only_metadata) ''tags'' = True
   \<and> rd_HasChange (ResourceData tags_only_metadata) ''log_destination'' = False
   \<and> rd_HasChange (ResourceData tags_only_metadata) ''log_analytics_workspace_id'' = False
   \<and> fst (ManagedEnvironments_Get (Client tags_only_metadata) example_environment_id)
     = \<lparr>HttpResponse = Some (Response 200), Model = Some example_environment\<rparr>
   \<and> map_option props_AppLogsConfiguration (me_Properties example_environment)
     = Some (Some example_log_analytics)
   \<and> calls (snd (Func (ContainerAppEnvironmentResource_Update example_lib) tags_only_metadata))
     = [Call_ManagedEnvironments_Get example_environment_id,
        Call_ManagedEnvironments_CreateOrUpdateThenPoll example_environment_id
          (example_environment
             \<lparr>me_Properties := Some
                \<lparr>props_AppLogsConfiguration =
                   Some \<lparr>Destination = None, logs_LogAnalyticsConfiguration = None\<rparr>,
                 props_DaprAIConnectionString = None,
                 props_DefaultDomain = Some ''env1.example.net'',
                 props_StaticIP = Some ''10.0.0.4'',
                 props_VnetConfiguration = None,
                 props_WorkloadProfiles = None,
                 props_ZoneRedundant = Some False\<rparr>,
              me_Tags := Some example_tags\<rparr>)]"
proof -
  have a: "Decode tags_only_metadata = Inr silent_config
   \<and> LogDestination silent_config = []
   \<and> LogAnalyticsWorkspaceId silent_config = []
   \<and> rd_HasChange (ResourceData tags_only_metadata) ''tags'' = True
   \<and> rd_HasChange (ResourceData tags_only_metadata) ''log_destination'' = False
   \<and> rd_HasChange (ResourceData tags_only_metadata) ''log_analytics_workspace_id'' = False
   \<and> fst (ManagedEnvironments_Get (Client tags_only_metadata) example_environment_id)
     = \<lparr>HttpResponse = Some (Response 200), Model = Some example_environment\<rparr>
   \<and> map_option props_AppLogsConfiguration (me_Properties example_environment)
     = Some (Some example_log_analytics)"
    by (simp add: tags_only_metadata_def silent_config_def zero_ContainerAppEnvironmentModel_def
        client_present_def example_environment_def)
  have b: "calls (snd (Func (ContainerAppEnvironmentResource_Update example_lib) tags_only_metadata))
     = [Call_ManagedEnvironments_Get example_environment_id,
        Call_ManagedEnvironments_CreateOrUpdateThenPoll example_environment_id
          (example_environment
             \<lparr>me_Properties := Some
                \<lparr>props_AppLogsConfiguration =
                   Some \<lparr>Destination = None, logs_LogAnalyticsConfiguration = None\<rparr>,
                 props_DaprAIConnectionString = None,
                 props_DefaultDomain = Some ''env1.example.net'',
                 props_StaticIP = Some ''10.0.0.4'',
                 props_VnetConfiguration = None,
                 props_WorkloadProfiles = None,
                 props_ZoneRedundant = Some False\<rparr>,
              me_Tags := Some example_tags\<rparr>)]"
    by (simp add: ContainerAppEnvironmentResource_Update_def tags_only_metadata_def
        silent_config_def zero_ContainerAppEnvironmentModel_def client_present_def
        example_lib_def example_environment_id_def
        example_environment_def example_log_analytics_def destination_defs
        Let_def record_call_def)
  from a b show ?thesis by (intro conjI) simp_all
qed

text \<open>
  C6, amended. The destination the configuration asks for is the configured one, and
  for a missing one "log-analytics" when a workspace is configured and "none"
  otherwise. When it is the destination the remote representation has, the update
  request carries no app logs configuration at all (the field is left out, neither
  re-sent nor replaced by the empty configuration), every other property is as read
  (so a Dapr connection string is as the Get returned it), and the only calls are the
  Get and the update: the workspace and its shared keys are not read again. When it is
  "none" and the remote destination is another one, the request carries the empty app
  logs configuration.
\<close>

theorem C6_update_keeps_unchanged_logging:
  "(ParseManagedEnvironmentID lib (rd_Id (ResourceData metadata)) = Inr environmentId
     \<and> Decode metadata = Inr state
     \<and> ManagedEnvironments_Get (Client metadata) environmentId = (existing, None)
     \<and> Model existing = Some model
     \<and> me_Properties model = Some properties
     \<and> desired_log_destination state = remote_log_destination properties
     \<and> request = update_request lib (ResourceData metadata) state model properties None
   \<longrightarrow> calls (snd (Func (ContainerAppEnvironmentResource_Update lib) metadata))
          = calls metadata
            @ [Call_ManagedEnvironments_Get environmentId,
               Call_ManagedEnvironments_CreateOrUpdateThenPoll environmentId request]
      \<and> me_Properties request = Some (properties\<lparr>props_AppLogsConfiguration := None\<rparr>)
      \<and> map_option props_AppLogsConfiguration (me_Properties request) = Some None
      \<and> map_option props_DaprAIConnectionString (me_Properties request)
          = Some (props_DaprAIConnectionString properties)
      \<and> fst (Func (ContainerAppEnvironmentResource_Update lib) metadata)
          = (case ManagedEnvironments_CreateOrUpdateThenPoll (Client metadata) environmentId request of
               None \<Rightarrow> Ok ()
             | Some err \<Rightarrow> Err (Errorf ''updating %s: %+v''
                                  [ArgId (ManagedEnvironmentIdOf environmentId), ArgErr err])))
   \<and> (ParseManagedEnvironmentID lib (rd_Id (ResourceData metadata)) = Inr environmentId
     \<and> Decode metadata = Inr state
     \<and> ManagedEnvironments_Get (Client metadata) environmentId = (existing, None)
     \<and> Model existing = Some model
     \<and> me_Properties model = Some properties
     \<and> desired_log_destination state \<noteq> remote_log_destination properties
     \<and> desired_log_destination state = LogDestinationNone
     \<and> clearing = update_request lib (ResourceData metadata) state model properties
          (Some \<lparr>Destination = None, logs_LogAnalyticsConfiguration = None\<rparr>)
   \<longrightarrow> calls (snd (Func (ContainerAppEnvironmentResource_Update lib) metadata))
          = calls metadata
            @ [Call_ManagedEnvironments_Get environmentId,
               Call_ManagedEnvironments_CreateOrUpdateThenPoll environmentId clearing]
      \<and> map_option props_AppLogsConfiguration (me_Properties clearing)
          = Some (Some \<lparr>Destination = None, logs_LogAnalyticsConfiguration = None\<rparr>))"
proof (intro conjI impI; elim conjE)
  assume p: "ParseManagedEnvironmentID lib (rd_Id (ResourceData metadata)) = Inr environmentId"
    and d: "Decode metadata = Inr state"
    and g: "ManagedEnvironments_Get (Client metadata) environmentId = (existing, None)"
    and m: "Model existing = Some model"
    and q: "me_Properties model = Some properties"
    and e: "desired_log_destination state = remote_log_destination properties"
    and r: "request = update_request lib (ResourceData metadata) state model properties None"
  have u: "Func (ContainerAppEnvironmentResource_Update lib) metadata
             = issue_update environmentId request
                 (metadata\<lparr>calls := calls metadata @ [Call_ManagedEnvironments_Get environmentId]\<rparr>)"
    using environment_update_unfold [of lib metadata environmentId state existing model properties]
      p d g m q e r by (simp add: Let_def)
  have v: "me_Properties request = Some (properties\<lparr>props_AppLogsConfiguration := None\<rparr>)"
    by (simp add: r update_request_def)
  show "calls (snd (Func (ContainerAppEnvironmentResource_Update lib) metadata))
          = calls metadata
            @ [Call_ManagedEnvironments_Get environmentId,
               Call_ManagedEnvironments_CreateOrUpdateThenPoll environmentId request]"
    by (simp add: u issue_update_def)
  show "me_Properties request = Some (properties\<lparr>props_AppLogsConfiguration := None\<rparr>)"
    by (rule v)
  show "map_option props_AppLogsConfiguration (me_Properties request) = Some None"
    by (simp add: v)
  show "map_option props_DaprAIConnectionString (me_Properties request)
          = Some (props_DaprAIConnectionString properties)"
    by (simp add: v)
  show "fst (Func (ContainerAppEnvironmentResource_Update lib) metadata)
          = (case ManagedEnvironments_CreateOrUpdateThenPoll (Client metadata) environmentId request of
               None \<Rightarrow> Ok ()
             | Some err \<Rightarrow> Err (Errorf ''updating %s: %+v''
                                  [ArgId (ManagedEnvironmentIdOf environmentId), ArgErr err]))"
    by (simp add: u issue_update_def)
next
  assume p: "ParseManagedEnvironmentID lib (rd_Id (ResourceData metadata)) = Inr environmentId"
    and d: "Decode metadata = Inr state"
    and g: "ManagedEnvironments_Get (Client metadata) environmentId = (existing, None)"
    and m: "Model existing = Some model"
    and q: "me_Properties model = Some properties"
    and ne: "desired_log_destination state \<noteq> remote_log_destination properties"
    and n: "desired_log_destination state = LogDestinationNone"
    and r: "clearing = update_request lib (ResourceData metadata) state model properties
          (Some \<lparr>Destination = None, logs_LogAnalyticsConfiguration = None\<rparr>)"
  have u: "Func (ContainerAppEnvironmentResource_Update lib) metadata
             = issue_update environmentId clearing
                 (metadata\<lparr>calls := calls metadata @ [Call_ManagedEnvironments_Get environmentId]\<rparr>)"
    using environment_update_unfold [of lib metadata environmentId state existing model properties]
      p d g m q ne n r by (simp add: Let_def)
  show "calls (snd (Func (ContainerAppEnvironmentResource_Update lib) metadata))
          = calls metadata
            @ [Call_ManagedEnvironments_Get environmentId,
               Call_ManagedEnvironments_CreateOrUpdateThenPoll environmentId clearing]"
    by (simp add: u issue_update_def)
  show "map_option props_AppLogsConfiguration (me_Properties clearing)
          = Some (Some \<lparr>Destination = None, logs_LogAnalyticsConfiguration = None\<rparr>)"
    by (simp add: r update_request_def)
qed

theorem C6_update_keeps_unchanged_logging_witness:
  "calls (snd (Func (ContainerAppEnvironmentResource_Update example_lib)
                 (example_metadata client_present ''env:1'')))
     = [Call_ManagedEnvironments_Get example_environment_id,
        Call_ManagedEnvironments_CreateOrUpdateThenPoll example_environment_id
          (example_environment\<lparr>me_Properties := Some
             \<lparr>props_AppLogsConfiguration = None,
              props_DaprAIConnectionString = None,
              props_DefaultDomain = Some ''env1.example.net'',
              props_StaticIP = Some ''10.0.0.4'',
              props_VnetConfiguration = None,
              props_WorkloadProfiles = None,
              props_ZoneRedundant = Some False\<rparr>\<rparr>)]
   \<and> fst (Func (ContainerAppEnvironmentResource_Update example_lib)
            (example_metadata client_present ''env:1'')) = Ok ()
   \<and> calls (snd (Func (ContainerAppEnvironmentResource_Update example_lib) tags_only_metadata))
     = [Call_ManagedEnvironments_Get example_environment_id,
        Call_ManagedEnvironments_CreateOrUpdateThenPoll example_environment_id
          (update_request example_lib (ResourceData tags_only_metadata) silent_config
             example_environment
             \<lparr>props_AppLogsConfiguration = Some example_log_analytics,
              props_DaprAIConnectionString = None,
              props_DefaultDomain = Some ''env1.example.net'',
              props_StaticIP = Some ''10.0.0.4'',
              props_VnetConfiguration = None,
              props_WorkloadProfiles = None,
              props_ZoneRedundant = Some False\<rparr>
             (Some \<lparr>Destination = None, logs_LogAnalyticsConfiguration = None\<rparr>))]"
proof -
  let ?m = "example_metadata client_present ''env:1''"
  let ?t = "tags_only_metadata"
  let ?p = "\<lparr>props_AppLogsConfiguration = Some example_log_analytics,
              props_DaprAIConnectionString = None,
              props_DefaultDomain = Some ''env1.example.net'',
              props_StaticIP = Some ''10.0.0.4'',
              props_VnetConfiguration = None,
              props_WorkloadProfiles = None,
              props_ZoneRedundant = Some False\<rparr>"
  let ?e = "\<lparr>HttpResponse = Some (Response 200), Model = Some example_environment\<rparr>"
  let ?r = "example_environment\<lparr>me_Properties := Some (?p\<lparr>props_AppLogsConfiguration := None\<rparr>)\<rparr>"
  let ?c = "update_request example_lib (ResourceData ?t) silent_config example_environment ?p
              (Some \<lparr>Destination = None, logs_LogAnalyticsConfiguration = None\<rparr>)"
  have hm: "ParseManagedEnvironmentID example_lib (rd_Id (ResourceData ?m)) = Inr example_environment_id
        \<and> Decode ?m = Inr example_config
        \<and> ManagedEnvironments_Get (Client ?m) example_environment_id = (?e, None)
        \<and> Model ?e = Some example_environment
        \<and> me_Properties example_environment = Some ?p"
    by (simp add: example_defs client_present_def example_environment_def)
  have ht: "ParseManagedEnvironmentID example_lib (rd_Id (ResourceData ?t)) = Inr example_environment_id
        \<and> Decode ?t = Inr silent_config
        \<and> ManagedEnvironments_Get (Client ?t) example_environment_id = (?e, None)"
    by (simp add: tags_only_metadata_def example_lib_def client_present_def)
  have dest: "desired_log_destination example_config = remote_log_destination ?p"
    by (simp add: desired_log_destination_def remote_log_destination_def example_defs
        example_log_analytics_def destination_defs)
  have dest2: "desired_log_destination silent_config \<noteq> remote_log_destination ?p
        \<and> desired_log_destination silent_config = LogDestinationNone"
    by (simp add: desired_log_destination_def remote_log_destination_def silent_config_def
        zero_ContainerAppEnvironmentModel_def example_log_analytics_def destination_defs)
  have req: "?r = update_request example_lib (ResourceData ?m) example_config example_environment ?p None"
    by (simp add: update_request_def example_metadata_def example_resource_data_def
        example_environment_def)
  have ok: "ManagedEnvironments_CreateOrUpdateThenPoll (Client ?m) example_environment_id ?r = None
        \<and> calls ?m = [] \<and> calls ?t = []"
    by (simp add: example_metadata_def client_present_def tags_only_metadata_def)
  have prem1: "ParseManagedEnvironmentID example_lib (rd_Id (ResourceData ?m)) = Inr example_environment_id
     \<and> Decode ?m = Inr example_config
     \<and> ManagedEnvironments_Get (Client ?m) example_environment_id = (?e, None)
     \<and> Model ?e = Some example_environment
     \<and> me_Properties example_environment = Some ?p
     \<and> desired_log_destination example_config = remote_log_destination ?p
     \<and> ?r = update_request example_lib (ResourceData ?m) example_config example_environment ?p None"
    using hm dest req by (intro conjI) (elim conjE, assumption)+
  have prem2: "ParseManagedEnvironmentID example_lib (rd_Id (ResourceData ?t)) = Inr example_environment_id
     \<and> Decode ?t = Inr silent_config
     \<and> ManagedEnvironments_Get (Client ?t) example_environment_id = (?e, None)
     \<and> Model ?e = Some example_environment
     \<and> me_Properties example_environment = Some ?p
     \<and> desired_log_destination silent_config \<noteq> remote_log_destination ?p
     \<and> desired_log_destination silent_config = LogDestinationNone
     \<and> ?c = update_request example_lib (ResourceData ?t) silent_config example_environment ?p
          (Some \<lparr>Destination = None, logs_LogAnalyticsConfiguration = None\<rparr>)"
    using ht hm dest2 by (intro conjI) (elim conjE, (assumption | rule refl))+
  note c1 = C6_update_keeps_unchanged_logging
         [of example_lib ?m example_environment_id example_config ?e example_environment ?p ?r ?r,
            THEN conjunct1, THEN mp, OF prem1]
  note c2 = C6_update_keeps_unchanged_logging
         [of example_lib ?t example_environment_id silent_config ?e example_environment ?p ?c ?c,
            THEN conjunct2, THEN mp, OF prem2]
  have first: "calls (snd (Func (ContainerAppEnvironmentResource_Update example_lib) ?m))
      = [Call_ManagedEnvironments_Get example_environment_id,
         Call_ManagedEnvironments_CreateOrUpdateThenPoll example_environment_id ?r]
     \<and> fst (Func (ContainerAppEnvironmentResource_Update example_lib) ?m) = Ok ()"
    using c1 ok by simp
  have second: "calls (snd (Func (ContainerAppEnvironmentResource_Update example_lib) ?t))
      = [Call_ManagedEnvironments_Get example_environment_id,
         Call_ManagedEnvironments_CreateOrUpdateThenPoll example_environment_id ?c]"
    using c2 ok by simp
  from first second show ?thesis by simp
qed

subsection \<open>The round trip of the identifier codec\<close>

lemma split_on_not_Nil: "split_on c s \<noteq> []"
  by (induction s) (auto split: list.splits)

lemma split_on_segment:
  "c \<notin> set a \<Longrightarrow> split_on c (a @ c # rest) = a # split_on c rest"
  by (induction a) auto

lemma split_on_last: "c \<notin> set a \<Longrightarrow> split_on c a = [a]"
  by (induction a) auto

text \<open>
  The codec passes the tests of the source: every input of the parser's table gives the
  expected identifier or an error, and the formatter gives the expected string.
\<close>

lemma FirewallPolicyID_cases_pass:
  "map (\<lambda>(input, expect). parsed (FirewallPolicyID input)) FirewallPolicyID_cases
     = map snd FirewallPolicyID_cases"
  by (simp add: FirewallPolicyID_cases_def FirewallPolicyID_def parsed_def)

lemma FirewallPolicyId_ID_formatter_test:
  "FirewallPolicyId_ID (NewFirewallPolicyID ''group1'' ''policy1'')
     ''12345678-1234-5678-1234-123456789012''
   = ''/subscriptions/12345678-1234-5678-1234-123456789012/resourceGroups/group1/providers/Microsoft.Network/firewallPolicies/policy1''"
  by (simp add: FirewallPolicyId_ID_def)

text \<open>
  C7. For a firewall policy identifier whose resource group and name are valid
  segments, and a valid subscription, parsing the formatted identifier gives back the
  identifier: the same resource group and the same name. (The subscription is an
  argument of the formatting, not a component of the identifier, and parsing does not
  return it.)
\<close>

theorem C7_format_parse_round_trip:
  "valid_segment subscriptionId \<and> valid_segment resourceGroup \<and> valid_segment name
   \<longrightarrow> FirewallPolicyID (FirewallPolicyId_ID (NewFirewallPolicyID resourceGroup name) subscriptionId)
       = Inr (NewFirewallPolicyID resourceGroup name)"
proof (intro impI, elim conjE)
  assume s: "valid_segment subscriptionId" and r: "valid_segment resourceGroup"
    and n: "valid_segment name"
  have sp: "split_on CHR ''/''
              (FirewallPolicyId_ID (NewFirewallPolicyID resourceGroup name) subscriptionId)
              = [[], ''subscriptions'', subscriptionId, ''resourceGroups'', resourceGroup,
                 ''providers'', ''Microsoft.Network'', ''firewallPolicies'', name]"
    using s r n
    by (simp add: valid_segment_def FirewallPolicyId_ID_def split_on_segment split_on_last)
  show "FirewallPolicyID (FirewallPolicyId_ID (NewFirewallPolicyID resourceGroup name) subscriptionId)
       = Inr (NewFirewallPolicyID resourceGroup name)"
    unfolding FirewallPolicyID_def sp
    using s r n by (simp add: valid_segment_def)
qed

theorem C7_format_parse_round_trip_witness:
  "FirewallPolicyID
     ''/subscriptions/12345678-1234-5678-1234-123456789012/resourceGroups/group1/providers/Microsoft.Network/firewallPolicies/policy1''
   = Inr (NewFirewallPolicyID ''group1'' ''policy1'')"
proof -
  have v: "valid_segment ''12345678-1234-5678-1234-123456789012'' \<and> valid_segment ''group1''
             \<and> valid_segment ''policy1''"
    by (simp add: valid_segment_def)
  have f: "FirewallPolicyId_ID (NewFirewallPolicyID ''group1'' ''policy1'')
             ''12345678-1234-5678-1234-123456789012''
           = ''/subscriptions/12345678-1234-5678-1234-123456789012/resourceGroups/group1/providers/Microsoft.Network/firewallPolicies/policy1''"
    by (simp add: FirewallPolicyId_ID_def)
  from C7_format_parse_round_trip
         [of "''12345678-1234-5678-1234-123456789012''" "''group1''" "''policy1''"] v
  show ?thesis unfolding f by simp
qed

subsection \<open>The lifecycle of the credential set\<close>

text \<open>
  C8. Each lifecycle function of the credential set resource (Create, Read, Update,
  Delete) panics with "unimplemented" on every context and metadata: it never returns,
  neither with success nor with an error value.
\<close>

theorem C8_credential_set_lifecycle_panics:
  "fst (Func ContainerRegistryCredentialSet_Create metadata) = Panic ''unimplemented''
   \<and> fst (Func ContainerRegistryCredentialSet_Read metadata) = Panic ''unimplemented''
   \<and> fst (Func ContainerRegistryCredentialSet_Update metadata) = Panic ''unimplemented''
   \<and> fst (Func ContainerRegistryCredentialSet_Delete metadata) = Panic ''unimplemented''
   \<and> (\<forall>e. fst (Func ContainerRegistryCredentialSet_Create metadata) \<noteq> Err e
          \<and> fst (Func ContainerRegistryCredentialSet_Read metadata) \<noteq> Err e
          \<and> fst (Func ContainerRegistryCredentialSet_Update metadata) \<noteq> Err e
          \<and> fst (Func ContainerRegistryCredentialSet_Delete metadata) \<noteq> Err e)
   \<and> fst (Func ContainerRegistryCredentialSet_Create metadata) \<noteq> Ok ()
   \<and> fst (Func ContainerRegistryCredentialSet_Read metadata) \<noteq> Ok ()
   \<and> fst (Func ContainerRegistryCredentialSet_Update metadata) \<noteq> Ok ()
   \<and> fst (Func ContainerRegistryCredentialSet_Delete metadata) \<noteq> Ok ()"
  by (simp add: ContainerRegistryCredentialSet_Create_def ContainerRegistryCredentialSet_Read_def
      ContainerRegistryCredentialSet_Update_def ContainerRegistryCredentialSet_Delete_def)

subsection \<open>The registry identifier a read hands to Set\<close>

lemma Set_rejects_struct:
  "ResourceData_Set (ContainerRegistryCacheRule_Arguments lib) ''container_registry_id''
     (VRegistryId r) metadata
   = (Some (Errorf ''%s: expected type string, got unconvertible type''
              [ArgStr ''container_registry_id'']), metadata)"
  by (simp add: ResourceData_Set_def ContainerRegistryCacheRule_Arguments_def converts_to_def)

text \<open>
  C9. Read builds the registry identifier from the subscription of the parsed cache
  rule identifier in both the subscription and the resource group position, and hands
  that struct to \<open>Set\<close> for the string field \<open>container_registry_id\<close>. \<open>Set\<close> rejects a
  struct for a string field and Read drops that error: on a Read whose Get succeeds,
  the name and the repositories are written and no \<open>container_registry_id\<close> is.
\<close>

theorem C9_read_stores_no_registry_id:
  "fst (Func (ContainerRegistryCacheRule_Read example_lib)
          (example_metadata client_present ''rule:1'')) = Ok ()
   \<and> cr_SubscriptionId example_cache_rule_id = ''sub1''
   \<and> cr_ResourceGroupName example_cache_rule_id = ''group1''
   \<and> ResourceData_Set (ContainerRegistryCacheRule_Arguments example_lib) ''container_registry_id''
        (VRegistryId (NewRegistryID ''sub1'' ''sub1'' ''registry1''))
        (example_metadata client_present ''rule:1'')
      = (Some (Errorf ''%s: expected type string, got unconvertible type''
                 [ArgStr ''container_registry_id'']),
         example_metadata client_present ''rule:1'')
   \<and> rd_Set (ResourceData (snd (Func (ContainerRegistryCacheRule_Read example_lib)
                                  (example_metadata client_present ''rule:1''))))
         ''container_registry_id'' = None
   \<and> rd_Set (ResourceData (snd (Func (ContainerRegistryCacheRule_Read example_lib)
                                  (example_metadata client_present ''rule:1''))))
         ''name'' = Some (VString ''testacc-cr-cache-rule-123'')
   \<and> rd_Set (ResourceData (snd (Func (ContainerRegistryCacheRule_Read example_lib)
                                  (example_metadata client_present ''rule:1''))))
         ''source_repo'' = Some (VStringPtr (Some ''docker.io/hello-world''))"
  by (simp add: ContainerRegistryCacheRule_Read_def Let_def ResourceData_Set_def converts_to_def
      ContainerRegistryCacheRule_Arguments_def record_call_def example_defs client_present_def
      example_cache_rule_def)

subsection \<open>Managed HSM URIs, characterised\<close>

lemma Cut_found:
  "sep \<notin> set a \<Longrightarrow> Cut (a @ sep # b) sep = (a, b, True)"
proof -
  assume n: "sep \<notin> set a"
  then have a: "\<And>x. x \<in> set a \<Longrightarrow> x \<noteq> sep" by auto
  have t: "takeWhile (\<lambda>c. c \<noteq> sep) (a @ sep # b) = a"
    using a by (simp add: takeWhile_append2)
  have d: "dropWhile (\<lambda>c. c \<noteq> sep) (a @ sep # b) = sep # b"
    using a by (simp add: dropWhile_append2)
  show ?thesis unfolding Cut_def t d by simp
qed

lemma Cut_split:
  "sep \<in> set s \<Longrightarrow> s = fst (Cut s sep) @ sep # fst (snd (Cut s sep))"
proof -
  assume m: "sep \<in> set s"
  then have ne: "dropWhile (\<lambda>c. c \<noteq> sep) s \<noteq> []" by simp
  then have h: "hd (dropWhile (\<lambda>c. c \<noteq> sep) s) = sep"
    using hd_dropWhile [of "\<lambda>c. c \<noteq> sep" s] by simp
  have "s = takeWhile (\<lambda>c. c \<noteq> sep) s @ dropWhile (\<lambda>c. c \<noteq> sep) s" by simp
  also have "dropWhile (\<lambda>c. c \<noteq> sep) s = sep # tl (dropWhile (\<lambda>c. c \<noteq> sep) s)"
    using ne h by (cases "dropWhile (\<lambda>c. c \<noteq> sep) s") auto
  finally show ?thesis using m by (simp add: Cut_def)
qed

lemma Cut_cases:
  "(\<exists>a b. s = a @ sep # b \<and> sep \<notin> set a \<and> Cut s sep = (a, b, True))
   \<or> (sep \<notin> set s \<and> Cut s sep = (s, [], False))"
proof (cases "sep \<in> set s")
  case True
  let ?a = "takeWhile (\<lambda>c. c \<noteq> sep) s"
  let ?b = "tl (dropWhile (\<lambda>c. c \<noteq> sep) s)"
  have c: "Cut s sep = (?a, ?b, True)" using True by (simp add: Cut_def)
  have a: "sep \<notin> set ?a"
    using set_takeWhileD [of sep "\<lambda>c. c \<noteq> sep" s] by blast
  have "s = ?a @ sep # ?b" using Cut_split [OF True] unfolding c by simp
  with a c show ?thesis by blast
next
  case False
  then show ?thesis by (simp add: Cut_def)
qed

lemma IsManagedHSMURI_outcomes:
  "((\<exists>url inst. url_Parse uri = Inr url \<and> CHR ''.'' \<notin> set inst
        \<and> Hostname url = inst @ CHR ''.'' # DomainSuffixForManagedHSM env
        \<and> IsManagedHSMURI url_Parse Hostname env uri
            = (True, None, inst, DomainSuffixForManagedHSM env))
    \<or> (\<exists>url inst suf. url_Parse uri = Inr url \<and> CHR ''.'' \<notin> set inst
        \<and> Hostname url = inst @ CHR ''.'' # suf \<and> suf \<noteq> DomainSuffixForManagedHSM env
        \<and> IsManagedHSMURI url_Parse Hostname env uri = (False, None, [], []))
    \<or> (\<exists>url. url_Parse uri = Inr url \<and> CHR ''.'' \<notin> set (Hostname url)
        \<and> IsManagedHSMURI url_Parse Hostname env uri
            = (False,
               Some (Errorf ''Key vault URI hostname does not have the right number of components: %s''
                       [ArgStr (Hostname url)]), [], []))
    \<or> (\<exists>err. url_Parse uri = Inl err
        \<and> IsManagedHSMURI url_Parse Hostname env uri
            = (False, Some (Errorf ''Error parsing %s as URI: %+v'' [ArgStr uri, ArgErr err]), [], [])))
   \<and> fst (IsManagedHSMURI url_Parse Hostname env uri)
       = (\<exists>url inst. url_Parse uri = Inr url \<and> CHR ''.'' \<notin> set inst
            \<and> Hostname url = inst @ CHR ''.'' # DomainSuffixForManagedHSM env)
   \<and> (fst (snd (IsManagedHSMURI url_Parse Hostname env uri)) \<noteq> None)
       = ((\<exists>err. url_Parse uri = Inl err)
          \<or> (\<exists>url. url_Parse uri = Inr url \<and> CHR ''.'' \<notin> set (Hostname url)))"
  (is "(?A \<or> ?B \<or> ?C \<or> ?E) \<and> ?F \<and> ?G")
proof -
  let ?D = "DomainSuffixForManagedHSM env"
  let ?R = "IsManagedHSMURI url_Parse Hostname env uri"
  show ?thesis
  proof (cases "url_Parse uri")
    case (Inl err)
    have r: "?R = (False, Some (Errorf ''Error parsing %s as URI: %+v'' [ArgStr uri, ArgErr err]), [], [])"
      using Inl by (simp add: IsManagedHSMURI_def)
    have e: ?E using Inl r by blast
    have f: ?F unfolding r using Inl by simp
    have g: ?G unfolding r using Inl by simp
    from e f g show ?thesis by (intro conjI disjI2)
  next
    case (Inr url)
    from Cut_cases [of "Hostname url" "CHR ''.''"]
    consider (dot) a b where "Hostname url = a @ CHR ''.'' # b" "CHR ''.'' \<notin> set a"
        "Cut (Hostname url) CHR ''.'' = (a, b, True)"
      | (nodot) "CHR ''.'' \<notin> set (Hostname url)"
        "Cut (Hostname url) CHR ''.'' = (Hostname url, [], False)"
      by blast
    then show ?thesis
    proof cases
      case dot
      have uniq: "inst = a \<and> suf = b"
        if "CHR ''.'' \<notin> set inst" "Hostname url = inst @ CHR ''.'' # suf" for inst suf
      proof -
        from that have "Cut (Hostname url) CHR ''.'' = (inst, suf, True)"
          by (simp add: Cut_found)
        with dot(3) show ?thesis by simp
      qed
      have nobad: "CHR ''.'' \<in> set (Hostname url)" using dot(1) by simp
      have nog: "\<not> ((\<exists>err. url_Parse uri = Inl err)
          \<or> (\<exists>url. url_Parse uri = Inr url \<and> CHR ''.'' \<notin> set (Hostname url)))"
        using Inr nobad by simp
      show ?thesis
      proof (cases "b = ?D")
        case True
        have r: "?R = (True, None, a, ?D)"
          using Inr dot(3) True by (simp add: IsManagedHSMURI_def)
        have ex: "\<exists>url inst. url_Parse uri = Inr url \<and> CHR ''.'' \<notin> set inst
                    \<and> Hostname url = inst @ CHR ''.'' # ?D"
          using Inr dot(1,2) True by blast
        have a: ?A using Inr dot(1,2) True r by blast
        have f: ?F unfolding r using ex by simp
        have g: ?G unfolding r using nog by simp
        from a f g show ?thesis by (intro conjI disjI1)
      next
        case False
        have r: "?R = (False, None, [], [])"
          using Inr dot(3) False by (simp add: IsManagedHSMURI_def)
        have nex: "\<not> (\<exists>url inst. url_Parse uri = Inr url \<and> CHR ''.'' \<notin> set inst
                    \<and> Hostname url = inst @ CHR ''.'' # ?D)"
        proof
          assume "\<exists>url inst. url_Parse uri = Inr url \<and> CHR ''.'' \<notin> set inst
                    \<and> Hostname url = inst @ CHR ''.'' # ?D"
          then obtain inst where "CHR ''.'' \<notin> set inst" "Hostname url = inst @ CHR ''.'' # ?D"
            using Inr by auto
          from uniq [OF this] False show False by simp
        qed
        have b: ?B using Inr dot(1,2) False r by blast
        have f: ?F unfolding r using nex by simp
        have g: ?G unfolding r using nog by simp
        from b f g show ?thesis by (intro conjI disjI2 disjI1)
      qed
    next
      case nodot
      have r: "?R = (False,
                 Some (Errorf ''Key vault URI hostname does not have the right number of components: %s''
                         [ArgStr (Hostname url)]), [], [])"
        using Inr nodot(2) by (simp add: IsManagedHSMURI_def)
      have nex: "\<not> (\<exists>url inst. url_Parse uri = Inr url \<and> CHR ''.'' \<notin> set inst
                    \<and> Hostname url = inst @ CHR ''.'' # ?D)"
        using Inr nodot(1) by auto
      have c: ?C using Inr nodot(1) r by blast
      have f: ?F unfolding r using nex by simp
      have g: ?G unfolding r using Inr nodot(1) by simp
      from c f g show ?thesis by (intro conjI disjI2 disjI1)
    qed
  qed
qed

text \<open>
  C10. \<open>IsManagedHSMURI\<close> has exactly four outcomes. The expected suffix is the
  domain suffix of the environment's managed HSM endpoint, and "managedhsm.azure.net"
  when the environment defines none. The function returns
  \<open>(true, nil, instanceName, domainSuffix)\<close> when the URI parses and its hostname is
  \<open>instanceName\<close>, a first dot, and the expected suffix; \<open>(false, nil, "", "")\<close> when
  the hostname has a first dot followed by another suffix; an error when the hostname
  has no dot; an error when the URI does not parse. So the first component is true
  exactly in the first case, and the error is non-nil exactly in the last two.
\<close>

theorem C10_IsManagedHSMURI_characterisation:
  "((\<exists>url inst. url_Parse uri = Inr url \<and> CHR ''.'' \<notin> set inst
        \<and> Hostname url = inst @ CHR ''.'' #
              (case ManagedHSM_DomainSuffix env of
                 None \<Rightarrow> ''managedhsm.azure.net'' | Some suffix \<Rightarrow> suffix)
        \<and> IsManagedHSMURI url_Parse Hostname env uri
            = (True, None, inst,
               (case ManagedHSM_DomainSuffix env of
                  None \<Rightarrow> ''managedhsm.azure.net'' | Some suffix \<Rightarrow> suffix)))
    \<or> (\<exists>url inst suf. url_Parse uri = Inr url \<and> CHR ''.'' \<notin> set inst
        \<and> Hostname url = inst @ CHR ''.'' # suf
        \<and> suf \<noteq> (case ManagedHSM_DomainSuffix env of
                     None \<Rightarrow> ''managedhsm.azure.net'' | Some suffix \<Rightarrow> suffix)
        \<and> IsManagedHSMURI url_Parse Hostname env uri = (False, None, [], []))
    \<or> (\<exists>url. url_Parse uri = Inr url \<and> CHR ''.'' \<notin> set (Hostname url)
        \<and> IsManagedHSMURI url_Parse Hostname env uri
            = (False,
               Some (Errorf ''Key vault URI hostname does not have the right number of components: %s''
                       [ArgStr (Hostname url)]), [], []))
    \<or> (\<exists>err. url_Parse uri = Inl err
        \<and> IsManagedHSMURI url_Parse Hostname env uri
            = (False, Some (Errorf ''Error parsing %s as URI: %+v'' [ArgStr uri, ArgErr err]), [], [])))
   \<and> fst (IsManagedHSMURI url_Parse Hostname env uri)
       = (\<exists>url inst. url_Parse uri = Inr url \<and> CHR ''.'' \<notin> set inst
            \<and> Hostname url = inst @ CHR ''.'' #
                  (case ManagedHSM_DomainSuffix env of
                     None \<Rightarrow> ''managedhsm.azure.net'' | Some suffix \<Rightarrow> suffix))
   \<and> (fst (snd (IsManagedHSMURI url_Parse Hostname env uri)) \<noteq> None)
       = ((\<exists>err. url_Parse uri = Inl err)
          \<or> (\<exists>url. url_Parse uri = Inr url \<and> CHR ''.'' \<notin> set (Hostname url)))
   \<and> DomainSuffixForManagedHSM (env\<lparr>ManagedHSM_DomainSuffix := None\<rparr>) = ''managedhsm.azure.net''
   \<and> DomainSuffixForManagedHSM (env\<lparr>ManagedHSM_DomainSuffix := Some suffix\<rparr>) = suffix"
proof -
  have d: "DomainSuffixForManagedHSM env
             = (case ManagedHSM_DomainSuffix env of
                  None \<Rightarrow> ''managedhsm.azure.net'' | Some suffix \<Rightarrow> suffix)"
    by (simp add: DomainSuffixForManagedHSM_def)
  have e: "DomainSuffixForManagedHSM (env\<lparr>ManagedHSM_DomainSuffix := None\<rparr>) = ''managedhsm.azure.net''
   \<and> DomainSuffixForManagedHSM (env\<lparr>ManagedHSM_DomainSuffix := Some suffix\<rparr>) = suffix"
    by (simp add: DomainSuffixForManagedHSM_def)
  from IsManagedHSMURI_outcomes [of url_Parse uri Hostname env, unfolded d] e
  show ?thesis by (intro conjI) (elim conjE, assumption)+
qed

end
